theory Spec2Isabelle
  imports Main
begin

section \<open>The serial test harness \<open>coa202ser.py\<close>\<close>

text \<open>
  The program is one Python script. It parses two optional positional arguments, opens a
  serial port, waits for the byte \<open>Q\<close>, answers \<open>X\<close>, prints one line, and then sends a fixed
  list of messages, waiting after each one for a line tagged \<open>ERROR:\<close> or \<open>DONE!\<close>.

  The script has no functions of its own: the definitions below embed its statements in
  source order and keep the names of its variables (\<open>going\<close>, \<open>still_reading\<close>, \<open>msgs\<close>,
  \<open>line\<close>, \<open>args\<close>). The serial port object \<open>ser\<close> and \<open>print\<close> belong to libraries; they
  are modelled as operations on an explicit \<open>world\<close>.
\<close>

subsection \<open>Python values, \<open>str\<close>, slices and \<open>upper\<close>\<close>

text \<open>
  A read on the port returns \<open>bytes\<close> (pyserial); a test double may return a \<open>str\<close>.
  The script applies \<open>str(...)\<close> to whatever \<open>readline\<close> returns, so both kinds of value
  are kept apart. Characters are 8-bit: \<open>str\<close> of a \<open>bytes\<close> object is printable ASCII.
\<close>

datatype py_val = PyBytes "char list" | PyStr string

definition newline :: char where
  "newline = CHR 0x0A"

definition backslash :: char where
  "backslash = CHR 0x5C"

definition squote :: char where
  "squote = CHR 0x27"

definition dquote :: char where
  "dquote = CHR 0x22"

definition hexdigit :: "nat \<Rightarrow> char" where
  "hexdigit n = ''0123456789abcdef'' ! (n mod 16)"

text \<open>\<open>repr\<close> of one byte inside a bytes literal quoted with \<open>q\<close> (CPython, \<open>PyBytes_Repr\<close>).\<close>

definition repr_byte :: "char \<Rightarrow> char \<Rightarrow> string" where
  "repr_byte q c =
     (if c = q \<or> c = backslash then [backslash, c]
      else if c = CHR 0x09 then [backslash, CHR ''t'']
      else if c = newline then [backslash, CHR ''n'']
      else if c = CHR 0x0D then [backslash, CHR ''r'']
      else if (of_char c :: nat) < 32 \<or> 127 \<le> (of_char c :: nat)
        then [backslash, CHR ''x'', hexdigit ((of_char c :: nat) div 16), hexdigit (of_char c)]
      else [c])"

text \<open>
  \<open>str(b)\<close> for a bytes object \<open>b\<close>: the literal \<open>b'...'\<close>, quoted with \<open>"\<close> when the bytes hold
  a single quote and no double quote.
\<close>

definition bytes_repr :: "char list \<Rightarrow> string" where
  "bytes_repr b =
     (let q = (if squote \<in> set b \<and> dquote \<notin> set b then dquote else squote)
      in [CHR ''b'', q] @ concat (map (repr_byte q) b) @ [q])"

fun py_str :: "py_val \<Rightarrow> string" where
  "py_str (PyStr s) = s"
| "py_str (PyBytes b) = bytes_repr b"

text \<open>\<open>xs[i:j]\<close> for \<open>0 \<le> i\<close>, \<open>0 \<le> j\<close>: never raises, shorter when \<open>xs\<close> is short.\<close>

definition py_slice :: "nat \<Rightarrow> nat \<Rightarrow> 'a list \<Rightarrow> 'a list" where
  "py_slice i j xs = take (j - i) (drop i xs)"

text \<open>
  \<open>str.upper()\<close> on ASCII text: \<open>a\<close>..\<open>z\<close> become \<open>A\<close>..\<open>Z\<close>, every other character stays.
  A \<open>str\<close> from a test double could hold characters outside ASCII, whose upper-case form
  Python computes from Unicode; none of them has an upper-case form made of the characters
  of \<open>DEBUG:\<close>, \<open>ERROR:\<close> or \<open>DONE!\<close>, so a window that holds one never equals a tag, here as
  in Python.
\<close>

definition ascii_lowercase :: string where
  "ascii_lowercase = ''abcdefghijklmnopqrstuvwxyz''"

definition ascii_uppercase :: string where
  "ascii_uppercase = ''ABCDEFGHIJKLMNOPQRSTUVWXYZ''"

definition upper_char :: "char \<Rightarrow> char" where
  "upper_char c =
     (case map_of (zip ascii_lowercase ascii_uppercase) c of None \<Rightarrow> c | Some u \<Rightarrow> u)"

definition py_upper :: "string \<Rightarrow> string" where
  "py_upper s = map upper_char s"

subsection \<open>The world: the device's script and what the program did\<close>

text \<open>
  \<open>pending\<close> is what the device will do: each \<open>Returns v\<close> is the result of the next read
  call (\<open>ser.read(1)\<close> or \<open>ser.readline()\<close>), \<open>LinkDown\<close> says the link is broken from that point
  on, so that every call on the port raises. When \<open>pending\<close> is used up the device stays
  silent and every read times out with \<open>b''\<close>.
  \<open>trace\<close> records, in order, every call the program made on the port and every line it
  printed to standard output.
\<close>

datatype feed = Returns py_val | LinkDown

record serial_config =
  device :: "string option"
  baudrate :: nat
  read_timeout :: int
  rtscts :: bool
  xonxoff :: bool
  dsrdtr :: bool

datatype event =
    Open serial_config
  | Read1 py_val
  | ReadLine py_val
  | Write "char list"
  | Print string

datatype error = TransportError

record world =
  pending :: "feed list"
  trace :: "event list"

definition emit :: "event \<Rightarrow> world \<Rightarrow> world" where
  "emit e w = w\<lparr>trace := trace w @ [e]\<rparr>"

fun join_sp :: "string list \<Rightarrow> string" where
  "join_sp [] = []"
| "join_sp [s] = s"
| "join_sp (s # t # ss) = s @ '' '' @ join_sp (t # ss)"

text \<open>\<open>print(a, b, ...)\<close>: the arguments, already converted by \<open>str\<close>, joined by one space.\<close>

definition print :: "string list \<Rightarrow> world \<Rightarrow> world" where
  "print ss w = emit (Print (join_sp ss)) w"

definition link_down :: "world \<Rightarrow> bool" where
  "link_down w = (case pending w of LinkDown # _ \<Rightarrow> True | _ \<Rightarrow> False)"

definition next_read :: "(py_val \<Rightarrow> event) \<Rightarrow> world \<Rightarrow> (error + py_val) \<times> world" where
  "next_read ev w =
     (case pending w of
        [] \<Rightarrow> (Inr (PyBytes []), emit (ev (PyBytes [])) w)
      | Returns v # rest \<Rightarrow> (Inr v, emit (ev v) (w\<lparr>pending := rest\<rparr>))
      | LinkDown # rest \<Rightarrow> (Inl TransportError, w))"

definition ser_read1 :: "world \<Rightarrow> (error + py_val) \<times> world" where
  "ser_read1 w = next_read Read1 w"

definition ser_readline :: "world \<Rightarrow> (error + py_val) \<times> world" where
  "ser_readline w = next_read ReadLine w"

definition ser_write :: "char list \<Rightarrow> world \<Rightarrow> (error + unit) \<times> world" where
  "ser_write b w = (if link_down w then (Inl TransportError, w) else (Inr (), emit (Write b) w))"

definition serial_Serial :: "serial_config \<Rightarrow> world \<Rightarrow> (error + unit) \<times> world" where
  "serial_Serial cfg w = (if link_down w then (Inl TransportError, w) else (Inr (), emit (Open cfg) w))"

subsection \<open>Command line\<close>

text \<open>
  Both positionals are declared with \<open>nargs='?'\<close>: \<open>port\<close> has no default (\<open>None\<close>), \<open>timeout\<close>
  has \<open>type=int, default=1\<close>. \<open>parse_args\<close> takes the arguments the caller gave, \<open>None\<close> for
  one that was left out.
\<close>

record args =
  port :: "string option"
  timeout :: int

definition parse_args :: "string option \<Rightarrow> int option \<Rightarrow> args" where
  "parse_args dev tmo =
     \<lparr>port = dev, timeout = (case tmo of None \<Rightarrow> 1 | Some t \<Rightarrow> t)\<rparr>"

text \<open>\<open>serial.Serial(args.port, 9600, timeout=args.timeout, rtscts=False, xonxoff=False, dsrdtr=False)\<close>\<close>

definition ser_config :: "args \<Rightarrow> serial_config" where
  "ser_config a =
     \<lparr>device = port a, baudrate = 9600, read_timeout = timeout a,
      rtscts = False, xonxoff = False, dsrdtr = False\<rparr>"

definition str_opt :: "string option \<Rightarrow> string" where
  "str_opt p = (case p of None \<Rightarrow> ''None'' | Some s \<Rightarrow> s)"

definition connect :: "args \<Rightarrow> world \<Rightarrow> (error + unit) \<times> world" where
  "connect a w = serial_Serial (ser_config a) (print [''connecting to port'', str_opt (port a)] w)"

subsection \<open>Handshake\<close>

text \<open>
  \<open>while going: s = ser.read(1); if s == b'Q': going = False\<close>.
  The loop has no bound of its own: it is a partial function, \<open>None\<close> when it never ends.
\<close>

partial_function (option) while_going :: "world \<Rightarrow> ((error + unit) \<times> world) option" where
  "while_going w =
     (case ser_read1 w of
        (Inl e, w1) \<Rightarrow> Some (Inl e, w1)
      | (Inr s, w1) \<Rightarrow> if s = PyBytes ''Q'' then Some (Inr (), w1) else while_going w1)"

text \<open>
  From \<open>print("waiting for sync")\<close> to \<open>print(line)\<close>; the result is the value of \<open>line\<close>.
\<close>

definition handshake :: "world \<Rightarrow> ((error + py_val) \<times> world) option" where
  "handshake w =
     (case while_going (print [''waiting for sync''] w) of
        None \<Rightarrow> None
      | Some (Inl e, w1) \<Rightarrow> Some (Inl e, w1)
      | Some (Inr u, w1) \<Rightarrow>
          (case ser_write ''X'' w1 of
             (Inl e, w2) \<Rightarrow> Some (Inl e, w2)
           | (Inr u, w2) \<Rightarrow>
               (case ser_readline (print [''Sync''] w2) of
                  (Inl e, w3) \<Rightarrow> Some (Inl e, w3)
                | (Inr line, w3) \<Rightarrow> Some (Inr line, print [py_str line] w3))))"

subsection \<open>Session loop\<close>

definition msgs :: "char list list" where
  "msgs =
     [''A-GR04XFB-C-GranbySt.'', ''A-GF57XWD-B-BeehiveLane'', ''A-BD51SMR-V-BrownsLane'',
      ''S-GR04XFB-PD'', ''T-GR04XFB-B'', ''L-GF57XWD-Southfield'', ''S-GF57XWD-1'',
      ''L-CU57ABC-BeehiveLane'', ''L-GR04XFB-BrownsLane'', ''S-BD51SMR-PD'',
      ''L-BD51SMR-BrownsLane'', ''A-CU57ABC-C-BedfordSquare'', ''A-CU57ABC-BedfordSq.'',
      ''A-CU57ABC-C-BedfordSquare'', ''A-CU57ABC-C-'', ''A-CU57ABC-M-BedfordSq.'',
      ''A-GR04XFB-B-BrownsLane'', ''Z-GR04XFB-BrownsLane'', ''ACU57ABC-V-BrownsLane'',
      ''A-GF23WSN- L- BrownsLane'']"

text \<open>
  One pass through the body of \<open>while(still_reading)\<close>; the result is the new value of
  \<open>still_reading\<close>.
\<close>

definition still_reading_body :: "world \<Rightarrow> (error + bool) \<times> world" where
  "still_reading_body w =
     (case ser_readline w of
        (Inl e, w1) \<Rightarrow> (Inl e, w1)
      | (Inr v, w1) \<Rightarrow>
          (let line = py_str v in
           if py_upper (py_slice 2 8 line) = ''DEBUG:'' then
             (Inr True, print [''Read: '', line] w1)
           else if py_upper (py_slice 2 8 line) = ''ERROR:'' then
             (Inr False, print [''Read: '', line] w1)
           else if py_upper (py_slice 2 7 line) = ''DONE!'' then
             (Inr False, w1)
           else (Inr True, w1)))"

partial_function (option) while_still_reading :: "world \<Rightarrow> ((error + unit) \<times> world) option" where
  "while_still_reading w =
     (case still_reading_body w of
        (Inl e, w1) \<Rightarrow> Some (Inl e, w1)
      | (Inr still_reading, w1) \<Rightarrow>
          if still_reading then while_still_reading w1 else Some (Inr (), w1))"

text \<open>\<open>for msg in msgs: print("Write:", str(msg)); ser.write(msg + b'\n'); ...\<close>\<close>

fun for_msg_in :: "char list list \<Rightarrow> world \<Rightarrow> ((error + unit) \<times> world) option" where
  "for_msg_in [] w = Some (Inr (), w)"
| "for_msg_in (msg # rest) w =
     (case ser_write (msg @ [newline]) (print [''Write:'', py_str (PyBytes msg)] w) of
        (Inl e, w1) \<Rightarrow> Some (Inl e, w1)
      | (Inr u, w1) \<Rightarrow>
          (case while_still_reading w1 of
             None \<Rightarrow> None
           | Some (Inl e, w2) \<Rightarrow> Some (Inl e, w2)
           | Some (Inr u, w2) \<Rightarrow> for_msg_in rest w2))"

text \<open>The whole script.\<close>

definition main :: "string option \<Rightarrow> int option \<Rightarrow> world \<Rightarrow> ((error + unit) \<times> world) option" where
  "main dev tmo w =
     (case connect (parse_args dev tmo) w of
        (Inl e, w1) \<Rightarrow> Some (Inl e, w1)
      | (Inr u, w1) \<Rightarrow>
          (case handshake w1 of
             None \<Rightarrow> None
           | Some (Inl e, w2) \<Rightarrow> Some (Inl e, w2)
           | Some (Inr line, w2) \<Rightarrow> for_msg_in msgs w2))"

subsection \<open>The classifier\<close>

text \<open>
  The script has no classifier function; the conditions of its \<open>if\<close>/\<open>elif\<close> chain, in source
  order, decide one of four outcomes for a line.
\<close>

datatype response_class = Debug | Error | Done | Unrecognized

definition classify :: "string \<Rightarrow> response_class" where
  "classify line =
     (if py_upper (py_slice 2 8 line) = ''DEBUG:'' then Debug
      else if py_upper (py_slice 2 8 line) = ''ERROR:'' then Error
      else if py_upper (py_slice 2 7 line) = ''DONE!'' then Done
      else Unrecognized)"

text \<open>The two outcomes that set \<open>still_reading = False\<close>.\<close>

definition terminal :: "response_class \<Rightarrow> bool" where
  "terminal c = (c = Error \<or> c = Done)"

subsection \<open>Notions used to state the properties\<close>

text \<open>
  A tag stands in a line's window when the line reaches to the end of the window and every
  character from index 2 on is the tag's character or its lower-case form.
\<close>

definition lower_char :: "char \<Rightarrow> char" where
  "lower_char c =
     (case map_of (zip ascii_uppercase ascii_lowercase) c of None \<Rightarrow> c | Some l \<Rightarrow> l)"

definition tag_in_window :: "string \<Rightarrow> string \<Rightarrow> bool" where
  "tag_in_window tag line =
     (2 + length tag \<le> length line \<and>
      list_all (\<lambda>i. line ! (2 + i) = tag ! i \<or> line ! (2 + i) = lower_char (tag ! i))
        [0..<length tag])"

text \<open>Projections of a trace: the payloads written, the lines printed, the lines read.\<close>

fun writes :: "event list \<Rightarrow> char list list" where
  "writes [] = []"
| "writes (Write b # es) = b # writes es"
| "writes (e # es) = writes es"

fun printed :: "event list \<Rightarrow> string list" where
  "printed [] = []"
| "printed (Print s # es) = s # printed es"
| "printed (e # es) = printed es"

fun line_reads :: "event list \<Rightarrow> py_val list" where
  "line_reads [] = []"
| "line_reads (ReadLine v # es) = v # line_reads es"
| "line_reads (e # es) = line_reads es"

text \<open>
  A monitor for the order of a session's events. In phase \<open>Idle\<close> the only call allowed on the
  port is the write of the next message with its newline; in phase \<open>Waiting\<close> the only call
  allowed is a line read, and the phase returns to \<open>Idle\<close> exactly when the line read is
  terminal. The trace of a whole session ends in \<open>Idle\<close> with no message left.
\<close>

datatype phase = Idle | Waiting

fun in_order :: "char list list \<Rightarrow> phase \<Rightarrow> event list \<Rightarrow> bool" where
  "in_order ms ph [] = (ms = [] \<and> ph = Idle)"
| "in_order ms ph (Print s # es) = in_order ms ph es"
| "in_order (m # ms) Idle (Write b # es) = (b = m @ [newline] \<and> in_order ms Waiting es)"
| "in_order ms Waiting (ReadLine v # es) =
     in_order ms (if terminal (classify (py_str v)) then Idle else Waiting) es"
| "in_order ms ph (e # es) = False"

text \<open>What the waiting loop prints for a line it has read: the line itself when it is tagged
  \<open>DEBUG:\<close> or \<open>ERROR:\<close>, nothing otherwise.\<close>

definition echo :: "py_val \<Rightarrow> event list" where
  "echo v =
     (case classify (py_str v) of
        Debug \<Rightarrow> [Print (''Read:  '' @ py_str v)]
      | Error \<Rightarrow> [Print (''Read:  '' @ py_str v)]
      | Done \<Rightarrow> []
      | Unrecognized \<Rightarrow> [])"

text \<open>
  The device answers \<open>n\<close> messages: its script holds \<open>n\<close> terminal lines, and the link does not
  break before the last of them.
\<close>

fun device_answers :: "nat \<Rightarrow> feed list \<Rightarrow> bool" where
  "device_answers 0 p = True"
| "device_answers (Suc n) [] = False"
| "device_answers (Suc n) (LinkDown # p) = False"
| "device_answers (Suc n) (Returns v # p) =
     (if terminal (classify (py_str v)) then device_answers n p else device_answers (Suc n) p)"

section \<open>Basic facts\<close>

subsection \<open>Calls on the port and \<open>print\<close>\<close>

lemmas ch_defs = newline_def squote_def dquote_def backslash_def
lemmas up_defs = upper_char_def ascii_lowercase_def ascii_uppercase_def

lemma print_world:
  "print ss \<lparr>pending = p, trace = tr\<rparr> = \<lparr>pending = p, trace = tr @ [Print (join_sp ss)]\<rparr>"
  by (simp add: print_def emit_def)

lemma ser_readline_Returns:
  "ser_readline \<lparr>pending = Returns v # p, trace = tr\<rparr> =
     (Inr v, \<lparr>pending = p, trace = tr @ [ReadLine v]\<rparr>)"
  by (simp add: ser_readline_def next_read_def emit_def)

lemma ser_readline_silent:
  "ser_readline \<lparr>pending = [], trace = tr\<rparr> =
     (Inr (PyBytes []), \<lparr>pending = [], trace = tr @ [ReadLine (PyBytes [])]\<rparr>)"
  by (simp add: ser_readline_def next_read_def emit_def)

lemma ser_readline_LinkDown:
  "ser_readline \<lparr>pending = LinkDown # p, trace = tr\<rparr> =
     (Inl TransportError, \<lparr>pending = LinkDown # p, trace = tr\<rparr>)"
  by (simp add: ser_readline_def next_read_def)

lemma ser_read1_Returns:
  "ser_read1 \<lparr>pending = Returns v # p, trace = tr\<rparr> =
     (Inr v, \<lparr>pending = p, trace = tr @ [Read1 v]\<rparr>)"
  by (simp add: ser_read1_def next_read_def emit_def)

lemma ser_write_Returns:
  "ser_write b \<lparr>pending = Returns v # p, trace = tr\<rparr> =
     (Inr (), \<lparr>pending = Returns v # p, trace = tr @ [Write b]\<rparr>)"
  by (simp add: ser_write_def link_down_def emit_def)

lemma ser_write_silent:
  "ser_write b \<lparr>pending = [], trace = tr\<rparr> = (Inr (), \<lparr>pending = [], trace = tr @ [Write b]\<rparr>)"
  by (simp add: ser_write_def link_down_def emit_def)

lemma ser_write_LinkDown:
  "ser_write b \<lparr>pending = LinkDown # p, trace = tr\<rparr> =
     (Inl TransportError, \<lparr>pending = LinkDown # p, trace = tr\<rparr>)"
  by (simp add: ser_write_def link_down_def)

lemma body_Returns:
  "still_reading_body \<lparr>pending = Returns v # p, trace = tr\<rparr> =
     (case classify (py_str v) of
        Debug \<Rightarrow> (Inr True, \<lparr>pending = p, trace = tr @ [ReadLine v, Print (''Read:  '' @ py_str v)]\<rparr>)
      | Error \<Rightarrow> (Inr False, \<lparr>pending = p, trace = tr @ [ReadLine v, Print (''Read:  '' @ py_str v)]\<rparr>)
      | Done \<Rightarrow> (Inr False, \<lparr>pending = p, trace = tr @ [ReadLine v]\<rparr>)
      | Unrecognized \<Rightarrow> (Inr True, \<lparr>pending = p, trace = tr @ [ReadLine v]\<rparr>))"
  by (simp add: still_reading_body_def ser_readline_Returns classify_def print_world Let_def)

lemma loop_stop:
  "still_reading_body w = (Inr False, w1) \<Longrightarrow> while_still_reading w = Some (Inr (), w1)"
  by (subst while_still_reading.simps) simp

lemma loop_again:
  "still_reading_body w = (Inr True, w1) \<Longrightarrow> while_still_reading w = while_still_reading w1"
  by (subst while_still_reading.simps) simp

lemma loop_raise:
  "still_reading_body w = (Inl e, w1) \<Longrightarrow> while_still_reading w = Some (Inl e, w1)"
  by (subst while_still_reading.simps) simp

subsection \<open>Tags and windows\<close>

lemma upper_char_D: "(upper_char c = CHR ''D'') = (c = CHR ''D'' \<or> c = lower_char (CHR ''D''))"
  by (auto simp: up_defs lower_char_def)
lemma upper_char_E: "(upper_char c = CHR ''E'') = (c = CHR ''E'' \<or> c = lower_char (CHR ''E''))"
  by (auto simp: up_defs lower_char_def)
lemma upper_char_B: "(upper_char c = CHR ''B'') = (c = CHR ''B'' \<or> c = lower_char (CHR ''B''))"
  by (auto simp: up_defs lower_char_def)
lemma upper_char_U: "(upper_char c = CHR ''U'') = (c = CHR ''U'' \<or> c = lower_char (CHR ''U''))"
  by (auto simp: up_defs lower_char_def)
lemma upper_char_G: "(upper_char c = CHR ''G'') = (c = CHR ''G'' \<or> c = lower_char (CHR ''G''))"
  by (auto simp: up_defs lower_char_def)
lemma upper_char_R: "(upper_char c = CHR ''R'') = (c = CHR ''R'' \<or> c = lower_char (CHR ''R''))"
  by (auto simp: up_defs lower_char_def)
lemma upper_char_O: "(upper_char c = CHR ''O'') = (c = CHR ''O'' \<or> c = lower_char (CHR ''O''))"
  by (auto simp: up_defs lower_char_def)
lemma upper_char_N: "(upper_char c = CHR ''N'') = (c = CHR ''N'' \<or> c = lower_char (CHR ''N''))"
  by (auto simp: up_defs lower_char_def)
lemma upper_char_colon: "(upper_char c = CHR '':'') = (c = CHR '':'' \<or> c = lower_char (CHR '':''))"
  by (auto simp: up_defs lower_char_def)
lemma upper_char_bang: "(upper_char c = CHR ''!'') = (c = CHR ''!'' \<or> c = lower_char (CHR ''!''))"
  by (auto simp: up_defs lower_char_def)

lemmas upper_char_tag = upper_char_D upper_char_E upper_char_B upper_char_U upper_char_G
  upper_char_R upper_char_O upper_char_N upper_char_colon upper_char_bang

lemma window_eq:
  assumes "\<And>t c. t \<in> set tag \<Longrightarrow> (upper_char c = t) = (c = t \<or> c = lower_char t)"
    and ne: "tag \<noteq> []"
  shows "(py_upper (py_slice 2 (2 + length tag) line) = tag) = tag_in_window tag line"
proof -
  have len: "length (py_upper (py_slice 2 (2 + length tag) line)) = min (length tag) (length line - 2)"
    by (simp add: py_upper_def py_slice_def)
  show ?thesis
  proof (cases "2 + length tag \<le> length line")
    case False
    then have "length (py_upper (py_slice 2 (2 + length tag) line)) \<noteq> length tag"
      using len ne by (cases tag) auto
    then have "py_upper (py_slice 2 (2 + length tag) line) \<noteq> tag" by metis
    with False show ?thesis by (simp add: tag_in_window_def)
  next
    case True
    have nth: "py_upper (py_slice 2 (2 + length tag) line) ! i = upper_char (line ! (2 + i))"
      if "i < length tag" for i
      using that True by (simp add: py_upper_def py_slice_def)
    have "(py_upper (py_slice 2 (2 + length tag) line) = tag) =
          (\<forall>i<length tag. upper_char (line ! (2 + i)) = tag ! i)"
      using True len nth by (auto simp: list_eq_iff_nth_eq)
    also have "\<dots> = (\<forall>i<length tag. line ! (2 + i) = tag ! i \<or> line ! (2 + i) = lower_char (tag ! i))"
      using assms by (metis nth_mem)
    finally show ?thesis using True by (auto simp: tag_in_window_def list_all_iff)
  qed
qed

lemma debug_window: "(py_upper (py_slice 2 8 line) = ''DEBUG:'') = tag_in_window ''DEBUG:'' line"
proof -
  have "(upper_char c = t) = (c = t \<or> c = lower_char t)" if "t \<in> set ''DEBUG:''" for t c
    using that by (auto simp: upper_char_tag)
  then show ?thesis
    using window_eq [of "''DEBUG:''" line] by simp
qed

lemma error_window: "(py_upper (py_slice 2 8 line) = ''ERROR:'') = tag_in_window ''ERROR:'' line"
proof -
  have "(upper_char c = t) = (c = t \<or> c = lower_char t)" if "t \<in> set ''ERROR:''" for t c
    using that by (auto simp: upper_char_tag)
  then show ?thesis
    using window_eq [of "''ERROR:''" line] by simp
qed

lemma done_window: "(py_upper (py_slice 2 7 line) = ''DONE!'') = tag_in_window ''DONE!'' line"
proof -
  have "(upper_char c = t) = (c = t \<or> c = lower_char t)" if "t \<in> set ''DONE!''" for t c
    using that by (auto simp: upper_char_tag)
  then show ?thesis
    using window_eq [of "''DONE!''" line] by simp
qed

lemma short_slice:
  assumes a: "length line < 2 + length tag" and ne: "tag \<noteq> []"
  shows "py_upper (py_slice 2 j line) \<noteq> tag"
proof
  assume "py_upper (py_slice 2 j line) = tag"
  then have "length (py_upper (py_slice 2 j line)) = length tag" by simp
  then show False using a ne by (cases tag) (auto simp: py_upper_def py_slice_def)
qed


subsection \<open>One pass through the waiting loop\<close>

lemma classify_timeout: "classify (py_str (PyBytes [])) = Unrecognized"
  by (simp add: classify_def bytes_repr_def py_upper_def py_slice_def up_defs ch_defs Let_def)

lemma body_silent:
  "still_reading_body \<lparr>pending = [], trace = tr\<rparr> =
     (Inr True, \<lparr>pending = [], trace = tr @ [ReadLine (PyBytes [])]\<rparr>)"
  using classify_timeout
  by (simp add: still_reading_body_def ser_readline_silent classify_def Let_def split: if_splits)

lemma body_LinkDown:
  "still_reading_body \<lparr>pending = LinkDown # p, trace = tr\<rparr> =
     (Inl TransportError, \<lparr>pending = LinkDown # p, trace = tr\<rparr>)"
  by (simp add: still_reading_body_def ser_readline_LinkDown)

lemma body_result:
  assumes "still_reading_body w = (Inr b, w1)"
  shows "\<exists>v. trace w1 = trace w @ ReadLine v # echo v \<and> b = (\<not> terminal (classify (py_str v)))"
proof (cases w)
  case (fields p tr)
  show ?thesis
  proof (cases p)
    case Nil
    with fields assms classify_timeout show ?thesis
      by (auto simp: body_silent echo_def terminal_def intro!: exI [of _ "PyBytes []"])
  next
    case (Cons f p')
    show ?thesis
    proof (cases f)
      case (Returns v)
      with Cons fields assms show ?thesis
        by (intro exI [of _ v]) (cases "classify (py_str v)"; auto simp: body_Returns echo_def terminal_def)
    next
      case LinkDown
      with Cons fields assms show ?thesis by (simp add: body_LinkDown)
    qed
  qed
qed

lemma in_order_echo: "in_order ms ph (echo v @ es) = in_order ms ph es"
  by (simp add: echo_def split: response_class.splits)

lemma writes_append: "writes (xs @ ys) = writes xs @ writes ys"
  by (induction xs rule: writes.induct) simp_all

lemma writes_echo: "writes (echo v) = []"
  by (simp add: echo_def split: response_class.splits)

lemma while_still_reading_trace:
  assumes "while_still_reading w = Some y"
  shows "\<forall>w'. y = (Inr (), w') \<longrightarrow>
        (\<exists>new. trace w' = trace w @ new \<and> writes new = [] \<and>
           (\<forall>ms es. in_order ms Waiting (new @ es) = in_order ms Idle es))"
  using assms
proof (induct rule: while_still_reading.raw_induct [rotated 1, consumes 1])
  case (1 loop w y)
  note hyps = "1.hyps" (2)
  obtain r w1 where body: "still_reading_body w = (r, w1)" by (cases "still_reading_body w")
  show ?case
  proof (cases r)
    case (Inl e)
    with body hyps show ?thesis by auto
  next
    case (Inr b)
    from body Inr obtain v where
      tr1: "trace w1 = trace w @ ReadLine v # echo v" and b: "b = (\<not> terminal (classify (py_str v)))"
      using body_result by blast
    show ?thesis
    proof (cases b)
      case False
      with body Inr hyps have y: "y = (Inr (), w1)" by simp
      from False b have "terminal (classify (py_str v))" by simp
      then have "\<forall>ms es. in_order ms Waiting ((ReadLine v # echo v) @ es) = in_order ms Idle es"
        by (simp add: in_order_echo)
      with y tr1 show ?thesis by (auto simp: writes_echo)
    next
      case True
      with body Inr hyps have rec: "loop w1 = Some y" by simp
      from True b have nt: "\<not> terminal (classify (py_str v))" by simp
      show ?thesis
      proof (intro allI impI)
        fix w' assume "y = (Inr (), w')"
        with "1.hyps" (1) [OF rec] obtain new where
          new: "trace w' = trace w1 @ new" "writes new = []"
            "\<forall>ms es. in_order ms Waiting (new @ es) = in_order ms Idle es"
          by blast
        let ?all = "(ReadLine v # echo v) @ new"
        have "trace w' = trace w @ ?all" using new tr1 by simp
        moreover have "writes ?all = []" using new by (simp add: writes_append writes_echo)
        moreover have "\<forall>ms es. in_order ms Waiting (?all @ es) = in_order ms Idle es"
          using new nt by (simp add: in_order_echo)
        ultimately show "\<exists>new. trace w' = trace w @ new \<and> writes new = [] \<and>
           (\<forall>ms es. in_order ms Waiting (new @ es) = in_order ms Idle es)" by blast
      qed
    qed
  qed
qed

subsection \<open>Sessions that return\<close>

lemma trace_print: "trace (print ss w) = trace w @ [Print (join_sp ss)]"
  by (simp add: print_def emit_def)

lemma ser_write_ok: "ser_write b w = (Inr u, w1) \<Longrightarrow> trace w1 = trace w @ [Write b]"
  by (auto simp: ser_write_def emit_def split: if_splits)

lemma in_order_append_Print: "in_order ms ph (Print s # es) = in_order ms ph es"
  by simp

lemma session_trace_in_order:
  "for_msg_in ms w = Some (Inr (), w') \<Longrightarrow>
     \<exists>new. trace w' = trace w @ new \<and>
           writes new = map (\<lambda>m. m @ [newline]) ms \<and>
           in_order ms Idle new"
proof (induction ms arbitrary: w)
  case Nil
  then show ?case by simp
next
  case (Cons m ms)
  let ?w0 = "print [''Write:'', py_str (PyBytes m)] w"
  obtain r w1 where wr: "ser_write (m @ [newline]) ?w0 = (r, w1)"
    by (cases "ser_write (m @ [newline]) ?w0")
  with Cons.prems obtain u where r: "r = Inr u" by (cases r) auto
  from wr r have tr1: "trace w1 = trace w @ [Print (join_sp [''Write:'', py_str (PyBytes m)]), Write (m @ [newline])]"
    using ser_write_ok trace_print by fastforce
  from Cons.prems wr r obtain w2 where
    wait: "while_still_reading w1 = Some (Inr (), w2)" and rest: "for_msg_in ms w2 = Some (Inr (), w')"
    by (auto split: option.splits sum.splits prod.splits)
  from while_still_reading_trace [OF wait] obtain mid where
    mid: "trace w2 = trace w1 @ mid" "writes mid = []"
      "\<forall>ms es. in_order ms Waiting (mid @ es) = in_order ms Idle es"
    by blast
  from Cons.IH [OF rest] obtain new where
    new: "trace w' = trace w2 @ new" "writes new = map (\<lambda>m. m @ [newline]) ms" "in_order ms Idle new"
    by blast
  let ?all = "[Print (join_sp [''Write:'', py_str (PyBytes m)]), Write (m @ [newline])] @ mid @ new"
  have "trace w' = trace w @ ?all" using tr1 mid new by simp
  moreover have "writes ?all = map (\<lambda>m. m @ [newline]) (m # ms)"
    using mid new by (simp add: writes_append)
  moreover have "in_order (m # ms) Idle ?all" using mid new by simp
  ultimately show ?case by blast
qed

lemma waiting_needs_input:
  assumes "while_still_reading w = Some y"
  shows "pending w \<noteq> []"
  using assms
proof (induct rule: while_still_reading.raw_induct [rotated 1, consumes 1])
  case (1 loop w y)
  show ?case
  proof
    assume "pending w = []"
    then have w: "w = \<lparr>pending = [], trace = trace w\<rparr>" by simp
    have "still_reading_body w = (Inr True, \<lparr>pending = [], trace = trace w @ [ReadLine (PyBytes [])]\<rparr>)"
      by (subst w) (simp only: body_silent)
    with "1.hyps" (2) have "loop \<lparr>pending = [], trace = trace w @ [ReadLine (PyBytes [])]\<rparr> = Some y"
      by simp
    from "1.hyps" (1) [OF this] show False by simp
  qed
qed

lemma silent_device_hangs: "while_still_reading \<lparr>pending = [], trace = tr\<rparr> = None"
proof (cases "while_still_reading \<lparr>pending = [], trace = tr\<rparr>")
  case None
  then show ?thesis .
next
  case (Some y)
  from waiting_needs_input [OF this] show ?thesis by simp
qed

subsection \<open>Runs on a given script\<close>

lemma waiting_until_terminal:
  assumes "\<forall>u\<in>set pre. \<not> terminal (classify (py_str u))" and "terminal (classify (py_str v))"
  shows "while_still_reading \<lparr>pending = map Returns pre @ Returns v # p, trace = tr\<rparr> =
     Some (Inr (), \<lparr>pending = p,
        trace = tr @ concat (map (\<lambda>u. ReadLine u # echo u) pre) @ ReadLine v # echo v\<rparr>)"
  using assms
proof (induction pre arbitrary: tr)
  case Nil
  then have "still_reading_body \<lparr>pending = Returns v # p, trace = tr\<rparr> =
      (Inr False, \<lparr>pending = p, trace = tr @ ReadLine v # echo v\<rparr>)"
    by (cases "classify (py_str v)") (simp_all add: body_Returns echo_def terminal_def)
  then show ?case by (simp add: loop_stop)
next
  case (Cons u pre)
  then have "still_reading_body \<lparr>pending = Returns u # map Returns pre @ Returns v # p, trace = tr\<rparr> =
      (Inr True, \<lparr>pending = map Returns pre @ Returns v # p, trace = tr @ ReadLine u # echo u\<rparr>)"
    by (cases "classify (py_str u)") (simp_all add: body_Returns echo_def terminal_def)
  then have "while_still_reading \<lparr>pending = map Returns (u # pre) @ Returns v # p, trace = tr\<rparr> =
      while_still_reading \<lparr>pending = map Returns pre @ Returns v # p, trace = tr @ ReadLine u # echo u\<rparr>"
    by (simp add: loop_again)
  with Cons show ?case by simp
qed

lemma waiting_answered:
  "device_answers (Suc n) p \<Longrightarrow>
     \<exists>p' tr'. while_still_reading \<lparr>pending = p, trace = tr\<rparr> = Some (Inr (), \<lparr>pending = p', trace = tr'\<rparr>)
        \<and> device_answers n p'"
proof (induction p arbitrary: tr)
  case Nil
  then show ?case by simp
next
  case (Cons f p)
  show ?case
  proof (cases f)
    case LinkDown
    with Cons.prems show ?thesis by simp
  next
    case (Returns v)
    show ?thesis
    proof (cases "terminal (classify (py_str v))")
      case True
      with Cons.prems Returns have n: "device_answers n p" by simp
      from True have "still_reading_body \<lparr>pending = Returns v # p, trace = tr\<rparr> =
          (Inr False, \<lparr>pending = p, trace = tr @ ReadLine v # echo v\<rparr>)"
        by (cases "classify (py_str v)") (simp_all add: body_Returns echo_def terminal_def)
      then have "while_still_reading \<lparr>pending = f # p, trace = tr\<rparr> =
          Some (Inr (), \<lparr>pending = p, trace = tr @ ReadLine v # echo v\<rparr>)"
        using Returns by (simp add: loop_stop)
      with n show ?thesis by blast
    next
      case False
      with Cons.prems Returns have n: "device_answers (Suc n) p" by simp
      from False have "still_reading_body \<lparr>pending = Returns v # p, trace = tr\<rparr> =
          (Inr True, \<lparr>pending = p, trace = tr @ ReadLine v # echo v\<rparr>)"
        by (cases "classify (py_str v)") (simp_all add: body_Returns echo_def terminal_def)
      then have "while_still_reading \<lparr>pending = f # p, trace = tr\<rparr> =
          while_still_reading \<lparr>pending = p, trace = tr @ ReadLine v # echo v\<rparr>"
        using Returns by (simp add: loop_again)
      with Cons.IH [OF n] show ?thesis by simp
    qed
  qed
qed

lemma device_answers_link_up:
  assumes "device_answers (Suc n) p"
  shows "\<exists>v p'. p = Returns v # p'"
proof (cases p)
  case Nil
  with assms show ?thesis by simp
next
  case (Cons f p')
  with assms show ?thesis by (cases f) auto
qed

lemma session_completes:
  "device_answers (length ms) p \<Longrightarrow>
     \<exists>w'. for_msg_in ms \<lparr>pending = p, trace = tr\<rparr> = Some (Inr (), w')"
proof (induction ms arbitrary: p tr)
  case Nil
  then show ?case by simp
next
  case (Cons m ms)
  then have ans: "device_answers (Suc (length ms)) p" by simp
  then obtain v p0 where p: "p = Returns v # p0" using device_answers_link_up by blast
  let ?tr1 = "tr @ [Print (join_sp [''Write:'', py_str (PyBytes m)]), Write (m @ [newline])]"
  from waiting_answered [OF ans] obtain p' tr' where
    wait: "while_still_reading \<lparr>pending = p, trace = ?tr1\<rparr> = Some (Inr (), \<lparr>pending = p', trace = tr'\<rparr>)"
    and n: "device_answers (length ms) p'" by blast
  from Cons.IH [OF n] obtain w' where "for_msg_in ms \<lparr>pending = p', trace = tr'\<rparr> = Some (Inr (), w')"
    by blast
  with wait p show ?case
    by (simp add: print_world ser_write_Returns)
qed

lemma sync_until_Q:
  assumes "PyBytes ''Q'' \<notin> set pre"
  shows "while_going \<lparr>pending = map Returns pre @ Returns (PyBytes ''Q'') # p, trace = tr\<rparr> =
     Some (Inr (), \<lparr>pending = p, trace = tr @ map Read1 pre @ [Read1 (PyBytes ''Q'')]\<rparr>)"
  using assms
proof (induction pre arbitrary: tr)
  case Nil
  show ?case by (subst while_going.simps) (simp add: ser_read1_Returns)
next
  case (Cons u pre)
  then have "while_going \<lparr>pending = map Returns (u # pre) @ Returns (PyBytes ''Q'') # p, trace = tr\<rparr> =
     while_going \<lparr>pending = map Returns pre @ Returns (PyBytes ''Q'') # p, trace = tr @ [Read1 u]\<rparr>"
    by (subst while_going.simps) (auto simp: ser_read1_Returns)
  with Cons show ?case by simp
qed


lemmas run_simps = print_world ser_write_Returns ser_write_silent ser_write_LinkDown
  ser_readline_Returns ser_read1_Returns loop_again loop_stop loop_raise body_Returns body_silent
  body_LinkDown
lemmas eval_defs = classify_def py_upper_def py_slice_def up_defs bytes_repr_def repr_byte_def
  ch_defs Let_def

lemma short_line_not_debug_error:
  "length line < 8 \<Longrightarrow> classify line = Done \<or> classify line = Unrecognized"
  using short_slice [of line "''DEBUG:''" 8] short_slice [of line "''ERROR:''" 8]
  by (simp add: classify_def)

lemma done_window_wins:
  assumes "py_upper (py_slice 2 7 line) = ''DONE!''"
  shows "classify line = Done"
proof -
  have t: "take 5 (py_upper (py_slice 2 8 line)) = py_upper (py_slice 2 7 line)"
    by (simp add: py_upper_def py_slice_def take_map)
  have "py_upper (py_slice 2 8 line) \<noteq> ''DEBUG:''"
  proof
    assume "py_upper (py_slice 2 8 line) = ''DEBUG:''"
    with t assms show False by simp
  qed
  moreover have "py_upper (py_slice 2 8 line) \<noteq> ''ERROR:''"
  proof
    assume "py_upper (py_slice 2 8 line) = ''ERROR:''"
    with t assms show False by simp
  qed
  ultimately show ?thesis using assms by (simp add: classify_def)
qed

lemma world_eta: "\<lparr>pending = pending w, trace = trace w\<rparr> = w"
  by simp

lemma exchange_until_terminal:
  assumes "\<forall>u\<in>set pre. \<not> terminal (classify (py_str u))" and "terminal (classify (py_str v))"
  shows "for_msg_in (msg # rest) \<lparr>pending = map Returns pre @ Returns v # p, trace = tr\<rparr> =
     for_msg_in rest \<lparr>pending = p,
       trace = tr @ [Print (''Write: '' @ py_str (PyBytes msg)), Write (msg @ [newline])] @
         concat (map (\<lambda>u. ReadLine u # echo u) pre) @ ReadLine v # echo v\<rparr>"
proof -
  let ?tr1 = "tr @ [Print (''Write: '' @ py_str (PyBytes msg)), Write (msg @ [newline])]"
  have wr: "ser_write (msg @ [newline])
      (print [''Write:'', py_str (PyBytes msg)] \<lparr>pending = map Returns pre @ Returns v # p, trace = tr\<rparr>) =
      (Inr (), \<lparr>pending = map Returns pre @ Returns v # p, trace = ?tr1\<rparr>)"
    by (cases pre) (simp_all add: print_world ser_write_Returns)
  show ?thesis
    using waiting_until_terminal [OF assms, of p ?tr1]
    by (simp only: for_msg_in.simps wr) simp
qed

lemma session_hangs_on_silent_device:
  "for_msg_in (msg # rest) \<lparr>pending = [], trace = tr\<rparr> = None"
  by (simp add: print_world ser_write_silent silent_device_hangs)

lemma ser_read1_ok: "ser_read1 w = (Inr s, w1) \<Longrightarrow> trace w1 = trace w @ [Read1 s]"
  by (auto simp: ser_read1_def next_read_def emit_def split: list.splits feed.splits)

lemma ser_readline_ok: "ser_readline w = (Inr s, w1) \<Longrightarrow> trace w1 = trace w @ [ReadLine s]"
  by (auto simp: ser_readline_def next_read_def emit_def split: list.splits feed.splits)

lemma sync_trace:
  assumes "while_going w = Some y"
  shows "\<forall>w'. y = (Inr (), w') \<longrightarrow>
    (\<exists>rs. PyBytes ''Q'' \<notin> set rs \<and> trace w' = trace w @ map Read1 rs @ [Read1 (PyBytes ''Q'')])"
  using assms
proof (induct rule: while_going.raw_induct [rotated 1, consumes 1])
  case (1 loop w y)
  obtain r w1 where rd: "ser_read1 w = (r, w1)" by (cases "ser_read1 w")
  show ?case
  proof (cases r)
    case (Inl e)
    with rd "1.hyps" (2) show ?thesis by auto
  next
    case (Inr s)
    with rd have tr1: "trace w1 = trace w @ [Read1 s]" by (simp add: ser_read1_ok)
    show ?thesis
    proof (cases "s = PyBytes ''Q''")
      case True
      with rd Inr "1.hyps" (2) have "y = (Inr (), w1)" by simp
      with tr1 True show ?thesis by (auto intro: exI [of _ "[]"])
    next
      case False
      with rd Inr "1.hyps" (2) have rec: "loop w1 = Some y" by simp
      show ?thesis
      proof (intro allI impI)
        fix w' assume "y = (Inr (), w')"
        with "1.hyps" (1) [OF rec] obtain rs where
          rs: "PyBytes ''Q'' \<notin> set rs" "trace w' = trace w1 @ map Read1 rs @ [Read1 (PyBytes ''Q'')]"
          by blast
        from rs tr1 False have "PyBytes ''Q'' \<notin> set (s # rs) \<and>
            trace w' = trace w @ map Read1 (s # rs) @ [Read1 (PyBytes ''Q'')]"
          by auto
        then show "\<exists>rs. PyBytes ''Q'' \<notin> set rs \<and>
            trace w' = trace w @ map Read1 rs @ [Read1 (PyBytes ''Q'')]"
          by blast
      qed
    qed
  qed
qed

lemma handshake_trace:
  assumes "handshake w = Some (Inr line, w')"
  shows "\<exists>rs. PyBytes ''Q'' \<notin> set rs \<and>
     trace w' = trace w @ Print ''waiting for sync'' # map Read1 rs @
       [Read1 (PyBytes ''Q''), Write ''X'', Print ''Sync'', ReadLine line, Print (py_str line)]"
proof -
  let ?w0 = "print [''waiting for sync''] w"
  from assms obtain w1 where sync: "while_going ?w0 = Some (Inr (), w1)"
    by (auto simp: handshake_def split: option.splits sum.splits prod.splits)
  from assms sync obtain w2 where wr: "ser_write ''X'' w1 = (Inr (), w2)"
    by (auto simp: handshake_def split: sum.splits prod.splits)
  from assms sync wr obtain w3 where rl: "ser_readline (print [''Sync''] w2) = (Inr line, w3)"
    and w': "w' = print [py_str line] w3"
    by (auto simp: handshake_def split: sum.splits prod.splits)
  from sync_trace [OF sync] obtain rs where
    rs: "PyBytes ''Q'' \<notin> set rs" "trace w1 = trace ?w0 @ map Read1 rs @ [Read1 (PyBytes ''Q'')]"
    by blast
  have "trace w' = trace w @ Print ''waiting for sync'' # map Read1 rs @
       [Read1 (PyBytes ''Q''), Write ''X'', Print ''Sync'', ReadLine line, Print (py_str line)]"
    using rs ser_write_ok [OF wr] ser_readline_ok [OF rl] w'
    by (simp add: trace_print)
  with rs show ?thesis by blast
qed

lemma line_reads_append: "line_reads (xs @ ys) = line_reads xs @ line_reads ys"
  by (induction xs rule: line_reads.induct) simp_all

lemma line_reads_echo: "line_reads (echo v) = []"
  by (simp add: echo_def split: response_class.splits)

lemma line_reads_exchange:
  "length (line_reads (concat (map (\<lambda>u. ReadLine u # echo u) pre) @ ReadLine v # echo v)) =
     length pre + 1"
  by (induction pre) (simp_all add: line_reads_append line_reads_echo)

lemma unrecognized_echo:
  "\<forall>u\<in>set pre. classify (py_str u) = Unrecognized \<Longrightarrow>
     concat (map (\<lambda>u. ReadLine u # echo u) pre) = map ReadLine pre"
  by (induction pre) (simp_all add: echo_def)

lemma printed_reads: "printed (map ReadLine pre) = []"
  by (induction pre) simp_all

lemma last_exchange:
  assumes "\<forall>u\<in>set pre. \<not> terminal (classify (py_str u))" and "terminal (classify (py_str v))"
  shows "for_msg_in [msg] \<lparr>pending = map Returns pre @ Returns v # p, trace = tr\<rparr> =
     Some (Inr (), \<lparr>pending = p,
       trace = tr @ [Print (''Write: '' @ py_str (PyBytes msg)), Write (msg @ [newline])] @
         concat (map (\<lambda>u. ReadLine u # echo u) pre) @ ReadLine v # echo v\<rparr>)"
  using exchange_until_terminal [OF assms, of msg "[]" p tr] by simp

lemma two_exchanges:
  assumes "\<forall>u\<in>set pre. \<not> terminal (classify (py_str u))" and "terminal (classify (py_str v))"
    and "terminal (classify (py_str v2))"
  shows "for_msg_in [msg, nxt] \<lparr>pending = map Returns pre @ Returns v # Returns v2 # p, trace = tr\<rparr> =
     Some (Inr (), \<lparr>pending = p,
       trace = tr @ [Print (''Write: '' @ py_str (PyBytes msg)), Write (msg @ [newline])] @
         concat (map (\<lambda>u. ReadLine u # echo u) pre) @ ReadLine v # echo v @
         [Print (''Write: '' @ py_str (PyBytes nxt)), Write (nxt @ [newline])] @
         ReadLine v2 # echo v2\<rparr>)"
proof -
  have "for_msg_in [nxt] \<lparr>pending = Returns v2 # p, trace = t\<rparr> =
     Some (Inr (), \<lparr>pending = p,
       trace = t @ [Print (''Write: '' @ py_str (PyBytes nxt)), Write (nxt @ [newline])] @
         ReadLine v2 # echo v2\<rparr>)" for t
    using last_exchange [of "[]" v2 nxt p t] assms(3) by simp
  then show ?thesis
    using exchange_until_terminal [OF assms(1,2), of msg "[nxt]" "Returns v2 # p" tr]
    by (simp only:) simp
qed

section \<open>The claims\<close>

subsection \<open>The classifier\<close>

text \<open>
  C1. The classifier looks at fixed windows that start at index 2 and ignores case there:
  a line is \<open>Debug\<close> when \<open>DEBUG:\<close> stands, in any case, at indices 2 to 7 (the slice
  \<open>[2:8]\<close>); otherwise \<open>Error\<close> when \<open>ERROR:\<close> stands at the slice \<open>[2:8]\<close>; otherwise \<open>Done\<close> when
  \<open>DONE!\<close> stands at the slice \<open>[2:7]\<close>; otherwise \<open>Unrecognized\<close>. The positions of the claim are
  read as the bounds of the script's slices, the only reading under which each window has
  the length of its tag.
\<close>

theorem classify_windows:
  "classify line =
     (if tag_in_window ''DEBUG:'' line then Debug
      else if tag_in_window ''ERROR:'' line then Error
      else if tag_in_window ''DONE!'' line then Done
      else Unrecognized)"
  by (simp add: classify_def debug_window error_window done_window)

text \<open>Mixed case is accepted; a tag that starts at index 3, or misses its last character, is not.\<close>

theorem classify_windows_witness:
  "classify ''xxdeBuG: hello'' = Debug \<and> classify ''b?Error: x'' = Error \<and>
   classify ''xxdone!'' = Done \<and> classify ''xxxDONE!'' = Unrecognized \<and>
   classify ''xxDEBUG'' = Unrecognized"
  by (simp add: classify_windows tag_in_window_def lower_char_def ascii_lowercase_def
      ascii_uppercase_def)

text \<open>
  C9. A line of fewer than 7 characters is shorter than the window of every tag: both
  slices are shorter than any tag, the line is \<open>Unrecognized\<close>, and the pass through the
  waiting loop ends with \<open>still_reading\<close> still true, no exception and nothing printed.
  (A line of exactly 7 characters reaches the end of the \<open>DONE!\<close> window and can be \<open>Done\<close>;
  \<open>short_line_not_debug_error\<close> covers it.)
\<close>

theorem short_line_unrecognized:
  assumes "length (py_str v) < 7"
  shows "length (py_slice 2 8 (py_str v)) < 5 \<and> length (py_slice 2 7 (py_str v)) < 5 \<and>
         classify (py_str v) = Unrecognized \<and>
         still_reading_body \<lparr>pending = Returns v # p, trace = tr\<rparr> =
           (Inr True, \<lparr>pending = p, trace = tr @ [ReadLine v]\<rparr>)"
proof -
  have len: "length (py_slice 2 8 (py_str v)) < 5 \<and> length (py_slice 2 7 (py_str v)) < 5"
    using assms by (simp add: py_slice_def)
  have "classify (py_str v) = Unrecognized"
    using assms short_slice [of "py_str v" "''DEBUG:''" 8] short_slice [of "py_str v" "''ERROR:''" 8]
      short_slice [of "py_str v" "''DONE!''" 7]
    by (simp add: classify_def)
  with len show ?thesis by (simp add: body_Returns)
qed

theorem short_line_unrecognized_witness:
  "length (py_str (PyStr ''xxDONE'')) < 7 \<and> classify (py_str (PyStr ''xxDONE'')) = Unrecognized \<and>
   still_reading_body \<lparr>pending = [Returns (PyStr ''xxDONE'')], trace = []\<rparr> =
     (Inr True, \<lparr>pending = [], trace = [ReadLine (PyStr ''xxDONE'')]\<rparr>)"
  using short_line_unrecognized [of "PyStr ''xxDONE''" "[]" "[]"] by simp

subsection \<open>What the waiting loop prints\<close>

text \<open>
  C10. A line whose slice \<open>[2:7]\<close>, uppercased, is \<open>DONE!\<close> is classified \<open>Done\<close> and ends the
  wait for the current message with nothing printed: the only event is the line read.
  A line classified \<open>Debug\<close> or \<open>Error\<close> is printed after \<open>Read: \<close>.
\<close>

theorem done_line_not_printed:
  "(py_upper (py_slice 2 7 (py_str v)) = ''DONE!'' \<longrightarrow>
      classify (py_str v) = Done \<and>
      while_still_reading \<lparr>pending = Returns v # p, trace = tr\<rparr> =
        Some (Inr (), \<lparr>pending = p, trace = tr @ [ReadLine v]\<rparr>)) \<and>
   (classify (py_str v) = Debug \<longrightarrow>
      still_reading_body \<lparr>pending = Returns v # p, trace = tr\<rparr> =
        (Inr True, \<lparr>pending = p, trace = tr @ [ReadLine v, Print (''Read:  '' @ py_str v)]\<rparr>)) \<and>
   (classify (py_str v) = Error \<longrightarrow>
      still_reading_body \<lparr>pending = Returns v # p, trace = tr\<rparr> =
        (Inr False, \<lparr>pending = p, trace = tr @ [ReadLine v, Print (''Read:  '' @ py_str v)]\<rparr>))"
  using done_window_wins [of "py_str v"] by (simp add: body_Returns loop_stop)

theorem done_line_not_printed_witness:
  "py_upper (py_slice 2 7 (py_str (PyStr ''xxDone! ok''))) = ''DONE!'' \<and>
   while_still_reading \<lparr>pending = [Returns (PyStr ''xxDone! ok'')], trace = []\<rparr> =
     Some (Inr (), \<lparr>pending = [], trace = [ReadLine (PyStr ''xxDone! ok'')]\<rparr>) \<and>
   classify (py_str (PyStr ''xxDEBUG: foo'')) = Debug \<and>
   still_reading_body \<lparr>pending = [Returns (PyStr ''xxDEBUG: foo'')], trace = []\<rparr> =
     (Inr True, \<lparr>pending = [],
        trace = [ReadLine (PyStr ''xxDEBUG: foo''), Print ''Read:  xxDEBUG: foo'']\<rparr>) \<and>
   classify (py_str (PyStr ''xxERROR: bad'')) = Error \<and>
   still_reading_body \<lparr>pending = [Returns (PyStr ''xxERROR: bad'')], trace = []\<rparr> =
     (Inr False, \<lparr>pending = [],
        trace = [ReadLine (PyStr ''xxERROR: bad''), Print ''Read:  xxERROR: bad'']\<rparr>)"
proof -
  have d: "py_upper (py_slice 2 7 (py_str (PyStr ''xxDone! ok''))) = ''DONE!''"
    by (simp add: eval_defs)
  have g: "classify (py_str (PyStr ''xxDEBUG: foo'')) = Debug"
    by (simp add: eval_defs)
  have e: "classify (py_str (PyStr ''xxERROR: bad'')) = Error"
    by (simp add: eval_defs)
  show ?thesis
    using d g e done_line_not_printed [of "PyStr ''xxDone! ok''" "[]" "[]"]
      done_line_not_printed [of "PyStr ''xxDEBUG: foo''" "[]" "[]"]
      done_line_not_printed [of "PyStr ''xxERROR: bad''" "[]" "[]"]
    by simp
qed

subsection \<open>The default timeout\<close>

text \<open>
  C8. When the caller leaves the timeout argument out, \<open>args.timeout\<close> is 1 and the serial port
  is opened with a read timeout of 1 second. (The comment at the head of the script, which
  speaks of 5 seconds, is not what the code does.)
\<close>

theorem default_timeout:
  "timeout (parse_args dev None) = 1 \<and>
   read_timeout (ser_config (parse_args dev None)) = 1 \<and>
   connect (parse_args dev None) \<lparr>pending = Returns v # p, trace = tr\<rparr> =
     (Inr (), \<lparr>pending = Returns v # p,
        trace = tr @ [Print (''connecting to port '' @ str_opt dev),
          Open \<lparr>device = dev, baudrate = 9600, read_timeout = 1,
            rtscts = False, xonxoff = False, dsrdtr = False\<rparr>]\<rparr>)"
  by (simp add: parse_args_def ser_config_def connect_def serial_Serial_def link_down_def
      print_world emit_def)

subsection \<open>Handshake\<close>

text \<open>
  C4. When the port yields the bytes \<open>X\<close>, \<open>Y\<close>, \<open>Z\<close>, \<open>Q\<close> and then the line \<open>BASICv1\<close>, the
  sync loop reads one byte at a time up to and including \<open>Q\<close> and leaves everything after it
  unread; the handshake then writes the single byte \<open>X\<close>, reads the line and returns it.
  The only write of the handshake is that \<open>X\<close>, and it comes after the read of \<open>Q\<close>.
  In general, every handshake that returns a line has done, in this order: single-byte
  reads of values other than \<open>Q\<close>, the read of \<open>Q\<close>, the write of \<open>X\<close>, the read of the line.
\<close>

theorem handshake_XYZQ:
  "while_going
     \<lparr>pending = [Returns (PyBytes ''X''), Returns (PyBytes ''Y''), Returns (PyBytes ''Z''),
                 Returns (PyBytes ''Q'')] @ p,
      trace = tr\<rparr> =
     Some (Inr (), \<lparr>pending = p,
       trace = tr @ [Read1 (PyBytes ''X''), Read1 (PyBytes ''Y''), Read1 (PyBytes ''Z''),
                     Read1 (PyBytes ''Q'')]\<rparr>) \<and>
   handshake
     \<lparr>pending = [Returns (PyBytes ''X''), Returns (PyBytes ''Y''), Returns (PyBytes ''Z''),
                 Returns (PyBytes ''Q''), Returns (PyBytes ''BASICv1'')] @ p,
      trace = tr\<rparr> =
     Some (Inr (PyBytes ''BASICv1''), \<lparr>pending = p,
       trace = tr @ [Print ''waiting for sync'',
                     Read1 (PyBytes ''X''), Read1 (PyBytes ''Y''), Read1 (PyBytes ''Z''),
                     Read1 (PyBytes ''Q''),
                     Write ''X'', Print ''Sync'',
                     ReadLine (PyBytes ''BASICv1''),
                     Print (''b'' @ [squote] @ ''BASICv1'' @ [squote])]\<rparr>) \<and>
   writes [Print ''waiting for sync'',
           Read1 (PyBytes ''X''), Read1 (PyBytes ''Y''), Read1 (PyBytes ''Z''),
           Read1 (PyBytes ''Q''),
           Write ''X'', Print ''Sync'',
           ReadLine (PyBytes ''BASICv1''),
           Print (''b'' @ [squote] @ ''BASICv1'' @ [squote])] = [''X''] \<and>
   (handshake w = Some (Inr line, w') \<longrightarrow>
      (\<exists>rs. PyBytes ''Q'' \<notin> set rs \<and>
         trace w' = trace w @ Print ''waiting for sync'' # map Read1 rs @
           [Read1 (PyBytes ''Q''), Write ''X'', Print ''Sync'', ReadLine line,
            Print (py_str line)]))"
proof -
  have sync: "while_going
     \<lparr>pending = [Returns (PyBytes ''X''), Returns (PyBytes ''Y''), Returns (PyBytes ''Z''),
                 Returns (PyBytes ''Q'')] @ q,
      trace = t\<rparr> =
     Some (Inr (), \<lparr>pending = q,
       trace = t @ [Read1 (PyBytes ''X''), Read1 (PyBytes ''Y''), Read1 (PyBytes ''Z''),
                     Read1 (PyBytes ''Q'')]\<rparr>)" for q t
    using sync_until_Q [of "[PyBytes ''X'', PyBytes ''Y'', PyBytes ''Z'']" q t] by simp
  have "handshake
     \<lparr>pending = [Returns (PyBytes ''X''), Returns (PyBytes ''Y''), Returns (PyBytes ''Z''),
                 Returns (PyBytes ''Q'')] @ (Returns (PyBytes ''BASICv1'') # p),
      trace = tr\<rparr> =
     Some (Inr (PyBytes ''BASICv1''), \<lparr>pending = p,
       trace = tr @ [Print ''waiting for sync'',
                     Read1 (PyBytes ''X''), Read1 (PyBytes ''Y''), Read1 (PyBytes ''Z''),
                     Read1 (PyBytes ''Q''),
                     Write ''X'', Print ''Sync'',
                     ReadLine (PyBytes ''BASICv1''),
                     Print (''b'' @ [squote] @ ''BASICv1'' @ [squote])]\<rparr>)"
    unfolding handshake_def print_world sync
    by (simp add: run_simps eval_defs)
  with sync [of p tr] handshake_trace [of w line w'] show ?thesis by simp
qed

text \<open>The general part at the same input: the reads before \<open>Q\<close> are \<open>X\<close>, \<open>Y\<close>, \<open>Z\<close>.\<close>

theorem handshake_XYZQ_witness:
  "handshake
     \<lparr>pending = [Returns (PyBytes ''X''), Returns (PyBytes ''Y''), Returns (PyBytes ''Z''),
                 Returns (PyBytes ''Q''), Returns (PyBytes ''BASICv1'')],
      trace = []\<rparr> =
     Some (Inr (PyBytes ''BASICv1''), \<lparr>pending = [],
       trace = [Print ''waiting for sync'',
                Read1 (PyBytes ''X''), Read1 (PyBytes ''Y''), Read1 (PyBytes ''Z''),
                Read1 (PyBytes ''Q''),
                Write ''X'', Print ''Sync'',
                ReadLine (PyBytes ''BASICv1''),
                Print (''b'' @ [squote] @ ''BASICv1'' @ [squote])]\<rparr>) \<and>
   (\<exists>rs. PyBytes ''Q'' \<notin> set rs \<and>
      [Print ''waiting for sync'',
       Read1 (PyBytes ''X''), Read1 (PyBytes ''Y''), Read1 (PyBytes ''Z''),
       Read1 (PyBytes ''Q''),
       Write ''X'', Print ''Sync'',
       ReadLine (PyBytes ''BASICv1''),
       Print (''b'' @ [squote] @ ''BASICv1'' @ [squote])] =
      Print ''waiting for sync'' # map Read1 rs @
        [Read1 (PyBytes ''Q''), Write ''X'', Print ''Sync'', ReadLine (PyBytes ''BASICv1''),
         Print (py_str (PyBytes ''BASICv1''))])"
  using handshake_XYZQ [where p = "[]" and tr = "[]" and line = "PyBytes ''BASICv1''"
      and w = "\<lparr>pending = [Returns (PyBytes ''X''), Returns (PyBytes ''Y''), Returns (PyBytes ''Z''),
                 Returns (PyBytes ''Q''), Returns (PyBytes ''BASICv1'')],
      trace = []\<rparr>"
      and w' = "\<lparr>pending = [],
       trace = [Print ''waiting for sync'',
                Read1 (PyBytes ''X''), Read1 (PyBytes ''Y''), Read1 (PyBytes ''Z''),
                Read1 (PyBytes ''Q''),
                Write ''X'', Print ''Sync'',
                ReadLine (PyBytes ''BASICv1''),
                Print (''b'' @ [squote] @ ''BASICv1'' @ [squote])]\<rparr>"]
  by simp

subsection \<open>Session loop\<close>

text \<open>
  C2. The messages are sent in input order, one at a time. When the device answers each of
  the \<open>N\<close> messages with a terminal line, the session returns; and in every session that
  returns, the payloads written are exactly the \<open>N\<close> messages, each followed by one newline,
  in input order, and the events follow the monitor \<open>in_order\<close>: a message is written only in
  phase \<open>Idle\<close>, which is reached again only by reading a line classified \<open>Error\<close> or \<open>Done\<close>.
  (With a device that stays silent the waiting loop never ends,
  \<open>session_hangs_on_silent_device\<close>, and no later message is written.)
\<close>

theorem session_sends_in_order:
  "(device_answers (length ms) (pending w) \<longrightarrow> (\<exists>w'. for_msg_in ms w = Some (Inr (), w'))) \<and>
   (\<forall>w'. for_msg_in ms w = Some (Inr (), w') \<longrightarrow>
      (\<exists>new. trace w' = trace w @ new \<and>
         writes new = map (\<lambda>m. m @ [newline]) ms \<and>
         in_order ms Idle new))"
  using session_completes [of ms "pending w" "trace w"] session_trace_in_order [of ms w]
  by (simp add: world_eta)

text \<open>The session of three messages, each answered by one \<open>DONE!\<close> line.\<close>

theorem session_sends_in_order_witness:
  "device_answers (length [''A-1'', ''B-2'', ''C-3''])
     [Returns (PyStr ''xxDONE!''), Returns (PyStr ''xxDONE!''), Returns (PyStr ''xxDONE!'')] \<and>
   for_msg_in [''A-1'', ''B-2'', ''C-3'']
     \<lparr>pending = [Returns (PyStr ''xxDONE!''), Returns (PyStr ''xxDONE!''), Returns (PyStr ''xxDONE!'')],
      trace = []\<rparr> =
   Some (Inr (), \<lparr>pending = [], trace =
     [Print (''Write: b'' @ [squote] @ ''A-1'' @ [squote]), Write (''A-1'' @ [newline]),
      ReadLine (PyStr ''xxDONE!''),
      Print (''Write: b'' @ [squote] @ ''B-2'' @ [squote]), Write (''B-2'' @ [newline]),
      ReadLine (PyStr ''xxDONE!''),
      Print (''Write: b'' @ [squote] @ ''C-3'' @ [squote]), Write (''C-3'' @ [newline]),
      ReadLine (PyStr ''xxDONE!'')]\<rparr>) \<and>
   writes
     [Print (''Write: b'' @ [squote] @ ''A-1'' @ [squote]), Write (''A-1'' @ [newline]),
      ReadLine (PyStr ''xxDONE!''),
      Print (''Write: b'' @ [squote] @ ''B-2'' @ [squote]), Write (''B-2'' @ [newline]),
      ReadLine (PyStr ''xxDONE!''),
      Print (''Write: b'' @ [squote] @ ''C-3'' @ [squote]), Write (''C-3'' @ [newline]),
      ReadLine (PyStr ''xxDONE!'')] =
     [''A-1'' @ [newline], ''B-2'' @ [newline], ''C-3'' @ [newline]] \<and>
   in_order [''A-1'', ''B-2'', ''C-3''] Idle
     [Print (''Write: b'' @ [squote] @ ''A-1'' @ [squote]), Write (''A-1'' @ [newline]),
      ReadLine (PyStr ''xxDONE!''),
      Print (''Write: b'' @ [squote] @ ''B-2'' @ [squote]), Write (''B-2'' @ [newline]),
      ReadLine (PyStr ''xxDONE!''),
      Print (''Write: b'' @ [squote] @ ''C-3'' @ [squote]), Write (''C-3'' @ [newline]),
      ReadLine (PyStr ''xxDONE!'')]"
proof -
  let ?w0 = "\<lparr>pending = [Returns (PyStr ''xxDONE!''), Returns (PyStr ''xxDONE!''), Returns (PyStr ''xxDONE!'')],
      trace = []\<rparr>"
  have ans: "device_answers (length [''A-1'', ''B-2'', ''C-3'']) (pending ?w0)"
    by (simp add: terminal_def eval_defs)
  have run: "for_msg_in [''A-1'', ''B-2'', ''C-3''] ?w0 =
   Some (Inr (), \<lparr>pending = [], trace =
     [Print (''Write: b'' @ [squote] @ ''A-1'' @ [squote]), Write (''A-1'' @ [newline]),
      ReadLine (PyStr ''xxDONE!''),
      Print (''Write: b'' @ [squote] @ ''B-2'' @ [squote]), Write (''B-2'' @ [newline]),
      ReadLine (PyStr ''xxDONE!''),
      Print (''Write: b'' @ [squote] @ ''C-3'' @ [squote]), Write (''C-3'' @ [newline]),
      ReadLine (PyStr ''xxDONE!'')]\<rparr>)"
    by (simp add: run_simps eval_defs)
  show ?thesis
    using ans run session_sends_in_order [of "[''A-1'', ''B-2'', ''C-3'']" ?w0]
    by simp
qed

text \<open>
  C3. A line classified \<open>Error\<close> ends the exchange of the current message only: whatever
  non-terminal lines came before it, the session goes on with the next message from the
  state in which only the write, the lines read and the printed lines were added. With the
  responses \<open>xxERROR: x\<close> for the first of two messages and \<open>xxDONE!\<close> for the second, both
  messages are written and the session ends normally.
\<close>

theorem error_does_not_abort:
  "((\<forall>u\<in>set pre. \<not> terminal (classify (py_str u))) \<and> classify (py_str v) = Error \<longrightarrow>
      for_msg_in (msg # rest) \<lparr>pending = map Returns pre @ Returns v # p, trace = tr\<rparr> =
        for_msg_in rest \<lparr>pending = p,
          trace = tr @ [Print (''Write: '' @ py_str (PyBytes msg)), Write (msg @ [newline])] @
            concat (map (\<lambda>u. ReadLine u # echo u) pre) @
            [ReadLine v, Print (''Read:  '' @ py_str v)]\<rparr>) \<and>
   for_msg_in [m1, m2]
     \<lparr>pending = [Returns (PyStr ''xxERROR: x''), Returns (PyStr ''xxDONE!'')], trace = []\<rparr> =
     Some (Inr (), \<lparr>pending = [],
       trace = [Print (''Write: '' @ py_str (PyBytes m1)), Write (m1 @ [newline]),
                ReadLine (PyStr ''xxERROR: x''), Print ''Read:  xxERROR: x'',
                Print (''Write: '' @ py_str (PyBytes m2)), Write (m2 @ [newline]),
                ReadLine (PyStr ''xxDONE!'')]\<rparr>)"
proof -
  have general: "for_msg_in (msg # rest) \<lparr>pending = map Returns pre @ Returns v # p, trace = tr\<rparr> =
        for_msg_in rest \<lparr>pending = p,
          trace = tr @ [Print (''Write: '' @ py_str (PyBytes msg)), Write (msg @ [newline])] @
            concat (map (\<lambda>u. ReadLine u # echo u) pre) @
            [ReadLine v, Print (''Read:  '' @ py_str v)]\<rparr>"
    if "\<forall>u\<in>set pre. \<not> terminal (classify (py_str u))" and "classify (py_str v) = Error"
    using exchange_until_terminal [of pre v msg rest p tr] that
    by (simp add: terminal_def echo_def)
  have example: "for_msg_in [m1, m2]
     \<lparr>pending = [Returns (PyStr ''xxERROR: x''), Returns (PyStr ''xxDONE!'')], trace = []\<rparr> =
     Some (Inr (), \<lparr>pending = [],
       trace = [Print (''Write: '' @ py_str (PyBytes m1)), Write (m1 @ [newline]),
                ReadLine (PyStr ''xxERROR: x''), Print ''Read:  xxERROR: x'',
                Print (''Write: '' @ py_str (PyBytes m2)), Write (m2 @ [newline]),
                ReadLine (PyStr ''xxDONE!'')]\<rparr>)"
    by (simp add: run_simps classify_def py_upper_def py_slice_def up_defs)
  from general example show ?thesis by blast
qed

text \<open>The same on the bytes a device would send, with a \<open>DEBUG:\<close> line and a timeout before the error.\<close>

theorem error_does_not_abort_witness:
  "classify (py_str (PyBytes (''DEBUG: parsing'' @ [newline]))) = Debug \<and>
   classify (py_str (PyBytes [])) = Unrecognized \<and>
   classify (py_str (PyBytes (''ERROR: bad plate'' @ [newline]))) = Error \<and>
   for_msg_in [''A-1'', ''B-2'']
     \<lparr>pending = [Returns (PyBytes (''DEBUG: parsing'' @ [newline])), Returns (PyBytes []),
                 Returns (PyBytes (''ERROR: bad plate'' @ [newline])),
                 Returns (PyBytes (''DONE!'' @ [newline]))],
      trace = []\<rparr> =
     Some (Inr (), \<lparr>pending = [],
       trace = [Print (''Write: b'' @ [squote] @ ''A-1'' @ [squote]), Write (''A-1'' @ [newline]),
                ReadLine (PyBytes (''DEBUG: parsing'' @ [newline])),
                Print (''Read:  b'' @ [squote] @ ''DEBUG: parsing'' @ [backslash] @ ''n'' @ [squote]),
                ReadLine (PyBytes []),
                ReadLine (PyBytes (''ERROR: bad plate'' @ [newline])),
                Print (''Read:  b'' @ [squote] @ ''ERROR: bad plate'' @ [backslash] @ ''n'' @ [squote]),
                Print (''Write: b'' @ [squote] @ ''B-2'' @ [squote]), Write (''B-2'' @ [newline]),
                ReadLine (PyBytes (''DONE!'' @ [newline]))]\<rparr>)"
proof -
  have pre: "\<forall>u\<in>set [PyBytes (''DEBUG: parsing'' @ [newline]), PyBytes []].
      \<not> terminal (classify (py_str u))"
    by (simp add: terminal_def eval_defs)
  have err: "classify (py_str (PyBytes (''ERROR: bad plate'' @ [newline]))) = Error"
    by (simp add: eval_defs)
  show ?thesis
    using pre err
      error_does_not_abort [of "[PyBytes (''DEBUG: parsing'' @ [newline]), PyBytes []]"
        "PyBytes (''ERROR: bad plate'' @ [newline])" "''A-1''" "[''B-2'']"
        "[Returns (PyBytes (''DONE!'' @ [newline]))]" "[]"]
    by (simp add: run_simps echo_def terminal_def eval_defs)
qed

text \<open>
  C5. A terminal line halts the waiting loop exactly there. For every run of non-terminal
  lines followed by a line classified \<open>Error\<close> or \<open>Done\<close>, the loop returns after reading all of
  them and nothing more (one read per line, the rest of the script untouched), the session
  of that one message returns, and with a further message the next write follows directly
  and that session returns too. In particular, for the responses \<open>xxDEBUG: foo\<close>,
  \<open>xxDEBUG: bar\<close>, \<open>xxDONE!\<close> the loop reads exactly 3 lines and the session goes on to write
  the next message; for the response \<open>xxERROR: bad\<close> it reads exactly 1 line and goes on.
\<close>

theorem terminal_line_halts_waiting:
  "((\<forall>u\<in>set pre. \<not> terminal (classify (py_str u))) \<and> terminal (classify (py_str v)) \<longrightarrow>
      while_still_reading \<lparr>pending = map Returns pre @ Returns v # p, trace = tr\<rparr> =
        Some (Inr (), \<lparr>pending = p,
          trace = tr @ concat (map (\<lambda>u. ReadLine u # echo u) pre) @ ReadLine v # echo v\<rparr>) \<and>
      length (line_reads (concat (map (\<lambda>u. ReadLine u # echo u) pre) @ ReadLine v # echo v)) =
        length pre + 1 \<and>
      for_msg_in [msg] \<lparr>pending = map Returns pre @ Returns v # p, trace = tr\<rparr> =
        Some (Inr (), \<lparr>pending = p,
          trace = tr @ [Print (''Write: '' @ py_str (PyBytes msg)), Write (msg @ [newline])] @
            concat (map (\<lambda>u. ReadLine u # echo u) pre) @ ReadLine v # echo v\<rparr>) \<and>
      for_msg_in (msg # rest) \<lparr>pending = map Returns pre @ Returns v # p, trace = tr\<rparr> =
        for_msg_in rest \<lparr>pending = p,
          trace = tr @ [Print (''Write: '' @ py_str (PyBytes msg)), Write (msg @ [newline])] @
            concat (map (\<lambda>u. ReadLine u # echo u) pre) @ ReadLine v # echo v\<rparr> \<and>
      (terminal (classify (py_str v2)) \<longrightarrow>
         for_msg_in [msg, nxt]
           \<lparr>pending = map Returns pre @ Returns v # Returns v2 # p, trace = tr\<rparr> =
           Some (Inr (), \<lparr>pending = p,
             trace = tr @ [Print (''Write: '' @ py_str (PyBytes msg)), Write (msg @ [newline])] @
               concat (map (\<lambda>u. ReadLine u # echo u) pre) @ ReadLine v # echo v @
               [Print (''Write: '' @ py_str (PyBytes nxt)), Write (nxt @ [newline])] @
               ReadLine v2 # echo v2\<rparr>))) \<and>
   while_still_reading
     \<lparr>pending = [Returns (PyStr ''xxDEBUG: foo''), Returns (PyStr ''xxDEBUG: bar''),
                 Returns (PyStr ''xxDONE!'')] @ p,
      trace = tr\<rparr> =
     Some (Inr (), \<lparr>pending = p,
       trace = tr @ [ReadLine (PyStr ''xxDEBUG: foo''), Print ''Read:  xxDEBUG: foo'',
                     ReadLine (PyStr ''xxDEBUG: bar''), Print ''Read:  xxDEBUG: bar'',
                     ReadLine (PyStr ''xxDONE!'')]\<rparr>) \<and>
   length (line_reads [ReadLine (PyStr ''xxDEBUG: foo''), Print ''Read:  xxDEBUG: foo'',
                     ReadLine (PyStr ''xxDEBUG: bar''), Print ''Read:  xxDEBUG: bar'',
                     ReadLine (PyStr ''xxDONE!'')]) = 3 \<and>
   for_msg_in (msg # rest)
     \<lparr>pending = [Returns (PyStr ''xxDEBUG: foo''), Returns (PyStr ''xxDEBUG: bar''),
                 Returns (PyStr ''xxDONE!'')] @ p,
      trace = tr\<rparr> =
     for_msg_in rest \<lparr>pending = p,
       trace = tr @ [Print (''Write: '' @ py_str (PyBytes msg)), Write (msg @ [newline]),
                     ReadLine (PyStr ''xxDEBUG: foo''), Print ''Read:  xxDEBUG: foo'',
                     ReadLine (PyStr ''xxDEBUG: bar''), Print ''Read:  xxDEBUG: bar'',
                     ReadLine (PyStr ''xxDONE!'')]\<rparr> \<and>
   for_msg_in [msg, nxt]
     \<lparr>pending = [Returns (PyStr ''xxDEBUG: foo''), Returns (PyStr ''xxDEBUG: bar''),
                 Returns (PyStr ''xxDONE!''), Returns (PyStr ''xxDONE!'')] @ p,
      trace = tr\<rparr> =
     Some (Inr (), \<lparr>pending = p,
       trace = tr @ [Print (''Write: '' @ py_str (PyBytes msg)), Write (msg @ [newline]),
                     ReadLine (PyStr ''xxDEBUG: foo''), Print ''Read:  xxDEBUG: foo'',
                     ReadLine (PyStr ''xxDEBUG: bar''), Print ''Read:  xxDEBUG: bar'',
                     ReadLine (PyStr ''xxDONE!''),
                     Print (''Write: '' @ py_str (PyBytes nxt)), Write (nxt @ [newline]),
                     ReadLine (PyStr ''xxDONE!'')]\<rparr>) \<and>
   while_still_reading \<lparr>pending = Returns (PyStr ''xxERROR: bad'') # p, trace = tr\<rparr> =
     Some (Inr (), \<lparr>pending = p,
       trace = tr @ [ReadLine (PyStr ''xxERROR: bad''), Print ''Read:  xxERROR: bad'']\<rparr>) \<and>
   length (line_reads [ReadLine (PyStr ''xxERROR: bad''), Print ''Read:  xxERROR: bad'']) = 1 \<and>
   for_msg_in (msg # rest) \<lparr>pending = Returns (PyStr ''xxERROR: bad'') # p, trace = tr\<rparr> =
     for_msg_in rest \<lparr>pending = p,
       trace = tr @ [Print (''Write: '' @ py_str (PyBytes msg)), Write (msg @ [newline]),
                     ReadLine (PyStr ''xxERROR: bad''), Print ''Read:  xxERROR: bad'']\<rparr> \<and>
   for_msg_in [msg, nxt]
     \<lparr>pending = [Returns (PyStr ''xxERROR: bad''), Returns (PyStr ''xxDONE!'')] @ p,
      trace = tr\<rparr> =
     Some (Inr (), \<lparr>pending = p,
       trace = tr @ [Print (''Write: '' @ py_str (PyBytes msg)), Write (msg @ [newline]),
                     ReadLine (PyStr ''xxERROR: bad''), Print ''Read:  xxERROR: bad'',
                     Print (''Write: '' @ py_str (PyBytes nxt)), Write (nxt @ [newline]),
                     ReadLine (PyStr ''xxDONE!'')]\<rparr>)"
proof -
  have general: "while_still_reading \<lparr>pending = map Returns pre @ Returns v # p, trace = tr\<rparr> =
        Some (Inr (), \<lparr>pending = p,
          trace = tr @ concat (map (\<lambda>u. ReadLine u # echo u) pre) @ ReadLine v # echo v\<rparr>) \<and>
      length (line_reads (concat (map (\<lambda>u. ReadLine u # echo u) pre) @ ReadLine v # echo v)) =
        length pre + 1 \<and>
      for_msg_in [msg] \<lparr>pending = map Returns pre @ Returns v # p, trace = tr\<rparr> =
        Some (Inr (), \<lparr>pending = p,
          trace = tr @ [Print (''Write: '' @ py_str (PyBytes msg)), Write (msg @ [newline])] @
            concat (map (\<lambda>u. ReadLine u # echo u) pre) @ ReadLine v # echo v\<rparr>) \<and>
      for_msg_in (msg # rest) \<lparr>pending = map Returns pre @ Returns v # p, trace = tr\<rparr> =
        for_msg_in rest \<lparr>pending = p,
          trace = tr @ [Print (''Write: '' @ py_str (PyBytes msg)), Write (msg @ [newline])] @
            concat (map (\<lambda>u. ReadLine u # echo u) pre) @ ReadLine v # echo v\<rparr> \<and>
      (terminal (classify (py_str v2)) \<longrightarrow>
         for_msg_in [msg, nxt]
           \<lparr>pending = map Returns pre @ Returns v # Returns v2 # p, trace = tr\<rparr> =
           Some (Inr (), \<lparr>pending = p,
             trace = tr @ [Print (''Write: '' @ py_str (PyBytes msg)), Write (msg @ [newline])] @
               concat (map (\<lambda>u. ReadLine u # echo u) pre) @ ReadLine v # echo v @
               [Print (''Write: '' @ py_str (PyBytes nxt)), Write (nxt @ [newline])] @
               ReadLine v2 # echo v2\<rparr>))"
    if h: "(\<forall>u\<in>set pre. \<not> terminal (classify (py_str u))) \<and> terminal (classify (py_str v))"
  proof -
    from h have a: "\<forall>u\<in>set pre. \<not> terminal (classify (py_str u))"
      and b: "terminal (classify (py_str v))" by simp_all
    show ?thesis
      using waiting_until_terminal [OF a b, of p tr] line_reads_exchange [of pre v]
        last_exchange [OF a b, of msg p tr] exchange_until_terminal [OF a b, of msg rest p tr]
        two_exchanges [OF a b, of v2 msg nxt p tr]
      by (simp only:) simp
  qed
  have streams: "while_still_reading
     \<lparr>pending = [Returns (PyStr ''xxDEBUG: foo''), Returns (PyStr ''xxDEBUG: bar''),
                 Returns (PyStr ''xxDONE!'')] @ p,
      trace = tr\<rparr> =
     Some (Inr (), \<lparr>pending = p,
       trace = tr @ [ReadLine (PyStr ''xxDEBUG: foo''), Print ''Read:  xxDEBUG: foo'',
                     ReadLine (PyStr ''xxDEBUG: bar''), Print ''Read:  xxDEBUG: bar'',
                     ReadLine (PyStr ''xxDONE!'')]\<rparr>) \<and>
   length (line_reads [ReadLine (PyStr ''xxDEBUG: foo''), Print ''Read:  xxDEBUG: foo'',
                     ReadLine (PyStr ''xxDEBUG: bar''), Print ''Read:  xxDEBUG: bar'',
                     ReadLine (PyStr ''xxDONE!'')]) = 3 \<and>
   for_msg_in (msg # rest)
     \<lparr>pending = [Returns (PyStr ''xxDEBUG: foo''), Returns (PyStr ''xxDEBUG: bar''),
                 Returns (PyStr ''xxDONE!'')] @ p,
      trace = tr\<rparr> =
     for_msg_in rest \<lparr>pending = p,
       trace = tr @ [Print (''Write: '' @ py_str (PyBytes msg)), Write (msg @ [newline]),
                     ReadLine (PyStr ''xxDEBUG: foo''), Print ''Read:  xxDEBUG: foo'',
                     ReadLine (PyStr ''xxDEBUG: bar''), Print ''Read:  xxDEBUG: bar'',
                     ReadLine (PyStr ''xxDONE!'')]\<rparr> \<and>
   for_msg_in [msg, nxt]
     \<lparr>pending = [Returns (PyStr ''xxDEBUG: foo''), Returns (PyStr ''xxDEBUG: bar''),
                 Returns (PyStr ''xxDONE!''), Returns (PyStr ''xxDONE!'')] @ p,
      trace = tr\<rparr> =
     Some (Inr (), \<lparr>pending = p,
       trace = tr @ [Print (''Write: '' @ py_str (PyBytes msg)), Write (msg @ [newline]),
                     ReadLine (PyStr ''xxDEBUG: foo''), Print ''Read:  xxDEBUG: foo'',
                     ReadLine (PyStr ''xxDEBUG: bar''), Print ''Read:  xxDEBUG: bar'',
                     ReadLine (PyStr ''xxDONE!''),
                     Print (''Write: '' @ py_str (PyBytes nxt)), Write (nxt @ [newline]),
                     ReadLine (PyStr ''xxDONE!'')]\<rparr>) \<and>
   while_still_reading \<lparr>pending = Returns (PyStr ''xxERROR: bad'') # p, trace = tr\<rparr> =
     Some (Inr (), \<lparr>pending = p,
       trace = tr @ [ReadLine (PyStr ''xxERROR: bad''), Print ''Read:  xxERROR: bad'']\<rparr>) \<and>
   length (line_reads [ReadLine (PyStr ''xxERROR: bad''), Print ''Read:  xxERROR: bad'']) = 1 \<and>
   for_msg_in (msg # rest) \<lparr>pending = Returns (PyStr ''xxERROR: bad'') # p, trace = tr\<rparr> =
     for_msg_in rest \<lparr>pending = p,
       trace = tr @ [Print (''Write: '' @ py_str (PyBytes msg)), Write (msg @ [newline]),
                     ReadLine (PyStr ''xxERROR: bad''), Print ''Read:  xxERROR: bad'']\<rparr> \<and>
   for_msg_in [msg, nxt]
     \<lparr>pending = [Returns (PyStr ''xxERROR: bad''), Returns (PyStr ''xxDONE!'')] @ p,
      trace = tr\<rparr> =
     Some (Inr (), \<lparr>pending = p,
       trace = tr @ [Print (''Write: '' @ py_str (PyBytes msg)), Write (msg @ [newline]),
                     ReadLine (PyStr ''xxERROR: bad''), Print ''Read:  xxERROR: bad'',
                     Print (''Write: '' @ py_str (PyBytes nxt)), Write (nxt @ [newline]),
                     ReadLine (PyStr ''xxDONE!'')]\<rparr>)"
    by (simp add: run_simps classify_def py_upper_def py_slice_def up_defs)
  from general streams show ?thesis by blast
qed

text \<open>
  The general part on other lines: a near miss of \<open>DONE!\<close> and a lower-case \<open>debug:\<close> line do
  not end the wait, a lower-case \<open>error:\<close> line does, and the line after it is left unread.
\<close>

theorem terminal_line_halts_waiting_witness:
  "classify (py_str (PyStr ''xxDONEzz'')) = Unrecognized \<and>
   classify (py_str (PyStr ''xxdebug: a'')) = Debug \<and>
   classify (py_str (PyStr ''xxerror: x'')) = Error \<and>
   classify (py_str (PyBytes (''DONE!'' @ [newline]))) = Done \<and>
   while_still_reading
     \<lparr>pending = [Returns (PyStr ''xxDONEzz''), Returns (PyStr ''xxdebug: a''),
                 Returns (PyStr ''xxerror: x''), Returns (PyStr ''xxDEBUG: late'')],
      trace = []\<rparr> =
     Some (Inr (), \<lparr>pending = [Returns (PyStr ''xxDEBUG: late'')],
       trace = [ReadLine (PyStr ''xxDONEzz''),
                ReadLine (PyStr ''xxdebug: a''), Print ''Read:  xxdebug: a'',
                ReadLine (PyStr ''xxerror: x''), Print ''Read:  xxerror: x'']\<rparr>) \<and>
   length (line_reads [ReadLine (PyStr ''xxDONEzz''),
                ReadLine (PyStr ''xxdebug: a''), Print ''Read:  xxdebug: a'',
                ReadLine (PyStr ''xxerror: x''), Print ''Read:  xxerror: x'']) = 3 \<and>
   for_msg_in [''A-1'', ''B-2'']
     \<lparr>pending = [Returns (PyStr ''xxDONEzz''), Returns (PyStr ''xxdebug: a''),
                 Returns (PyStr ''xxerror: x''), Returns (PyBytes (''DONE!'' @ [newline])),
                 Returns (PyStr ''xxDEBUG: late'')],
      trace = []\<rparr> =
     Some (Inr (), \<lparr>pending = [Returns (PyStr ''xxDEBUG: late'')],
       trace = [Print (''Write: b'' @ [squote] @ ''A-1'' @ [squote]), Write (''A-1'' @ [newline]),
                ReadLine (PyStr ''xxDONEzz''),
                ReadLine (PyStr ''xxdebug: a''), Print ''Read:  xxdebug: a'',
                ReadLine (PyStr ''xxerror: x''), Print ''Read:  xxerror: x'',
                Print (''Write: b'' @ [squote] @ ''B-2'' @ [squote]), Write (''B-2'' @ [newline]),
                ReadLine (PyBytes (''DONE!'' @ [newline]))]\<rparr>)"
proof -
  have c: "classify (py_str (PyStr ''xxDONEzz'')) = Unrecognized"
    "classify (py_str (PyStr ''xxdebug: a'')) = Debug"
    "classify (py_str (PyStr ''xxerror: x'')) = Error"
    "classify (py_str (PyBytes (''DONE!'' @ [newline]))) = Done"
    by (simp_all add: eval_defs)
  show ?thesis
    using c
      terminal_line_halts_waiting [where pre = "[PyStr ''xxDONEzz'', PyStr ''xxdebug: a'']"
        and v = "PyStr ''xxerror: x''" and ?v2.0 = "PyBytes (''DONE!'' @ [newline])"
        and msg = "''A-1''" and nxt = "''B-2''" and p = "[Returns (PyStr ''xxDEBUG: late'')]"
        and tr = "[]" and rest = "[]"]
    by (simp add: run_simps echo_def terminal_def eval_defs)
qed

text \<open>
  C6. Lines classified \<open>Unrecognized\<close>, among them an empty line (a read that timed out),
  never end a message's exchange and raise nothing. For every such line one pass through
  the loop leaves \<open>still_reading\<close> true with only the read in the trace; for every run of such
  lines followed by a terminal line the loop reads all of them and returns at the terminal
  one, nothing is printed for them, and the session goes on to the next message and
  returns. In particular, for the responses \<open>xxJUNK\<close>, the empty string, \<open>xxDONE!\<close> the loop
  reads exactly 3 lines before the next message is written. The same holds for the value
  \<open>b''\<close> that pyserial returns on a timeout, also when the device stays silent.
\<close>

theorem unrecognized_lines_do_not_terminate:
  "(classify (py_str u) = Unrecognized \<longrightarrow>
      still_reading_body \<lparr>pending = Returns u # p, trace = tr\<rparr> =
        (Inr True, \<lparr>pending = p, trace = tr @ [ReadLine u]\<rparr>)) \<and>
   ((\<forall>u\<in>set pre. classify (py_str u) = Unrecognized) \<and> terminal (classify (py_str v)) \<longrightarrow>
      while_still_reading \<lparr>pending = map Returns pre @ Returns v # p, trace = tr\<rparr> =
        Some (Inr (), \<lparr>pending = p, trace = tr @ map ReadLine pre @ ReadLine v # echo v\<rparr>) \<and>
      length (line_reads (map ReadLine pre @ ReadLine v # echo v)) = length pre + 1 \<and>
      printed (map ReadLine pre) = [] \<and>
      for_msg_in [msg] \<lparr>pending = map Returns pre @ Returns v # p, trace = tr\<rparr> =
        Some (Inr (), \<lparr>pending = p,
          trace = tr @ [Print (''Write: '' @ py_str (PyBytes msg)), Write (msg @ [newline])] @
            map ReadLine pre @ ReadLine v # echo v\<rparr>) \<and>
      (terminal (classify (py_str v2)) \<longrightarrow>
         for_msg_in [msg, nxt]
           \<lparr>pending = map Returns pre @ Returns v # Returns v2 # p, trace = tr\<rparr> =
           Some (Inr (), \<lparr>pending = p,
             trace = tr @ [Print (''Write: '' @ py_str (PyBytes msg)), Write (msg @ [newline])] @
               map ReadLine pre @ ReadLine v # echo v @
               [Print (''Write: '' @ py_str (PyBytes nxt)), Write (nxt @ [newline])] @
               ReadLine v2 # echo v2\<rparr>))) \<and>
   classify (py_str (PyStr ''xxJUNK'')) = Unrecognized \<and>
   classify (py_str (PyStr '''')) = Unrecognized \<and>
   classify (py_str (PyBytes [])) = Unrecognized \<and>
   while_still_reading
     \<lparr>pending = [Returns (PyStr ''xxJUNK''), Returns (PyStr ''''), Returns (PyStr ''xxDONE!'')] @ p,
      trace = tr\<rparr> =
     Some (Inr (), \<lparr>pending = p,
       trace = tr @ [ReadLine (PyStr ''xxJUNK''), ReadLine (PyStr ''''),
                     ReadLine (PyStr ''xxDONE!'')]\<rparr>) \<and>
   length (line_reads [ReadLine (PyStr ''xxJUNK''), ReadLine (PyStr ''''),
                     ReadLine (PyStr ''xxDONE!'')]) = 3 \<and>
   for_msg_in (msg # rest)
     \<lparr>pending = [Returns (PyStr ''xxJUNK''), Returns (PyStr ''''), Returns (PyStr ''xxDONE!'')] @ p,
      trace = tr\<rparr> =
     for_msg_in rest \<lparr>pending = p,
       trace = tr @ [Print (''Write: '' @ py_str (PyBytes msg)), Write (msg @ [newline]),
                     ReadLine (PyStr ''xxJUNK''), ReadLine (PyStr ''''),
                     ReadLine (PyStr ''xxDONE!'')]\<rparr> \<and>
   for_msg_in [msg, nxt]
     \<lparr>pending = [Returns (PyStr ''xxJUNK''), Returns (PyStr ''''), Returns (PyStr ''xxDONE!''),
                 Returns (PyStr ''xxDONE!'')] @ p,
      trace = tr\<rparr> =
     Some (Inr (), \<lparr>pending = p,
       trace = tr @ [Print (''Write: '' @ py_str (PyBytes msg)), Write (msg @ [newline]),
                     ReadLine (PyStr ''xxJUNK''), ReadLine (PyStr ''''),
                     ReadLine (PyStr ''xxDONE!''),
                     Print (''Write: '' @ py_str (PyBytes nxt)), Write (nxt @ [newline]),
                     ReadLine (PyStr ''xxDONE!'')]\<rparr>) \<and>
   still_reading_body \<lparr>pending = Returns (PyBytes []) # p, trace = tr\<rparr> =
     (Inr True, \<lparr>pending = p, trace = tr @ [ReadLine (PyBytes [])]\<rparr>) \<and>
   still_reading_body \<lparr>pending = [], trace = tr\<rparr> =
     (Inr True, \<lparr>pending = [], trace = tr @ [ReadLine (PyBytes [])]\<rparr>)"
proof -
  have one: "still_reading_body \<lparr>pending = Returns u # p, trace = tr\<rparr> =
        (Inr True, \<lparr>pending = p, trace = tr @ [ReadLine u]\<rparr>)"
    if "classify (py_str u) = Unrecognized"
    using that by (simp add: body_Returns)
  have general: "while_still_reading \<lparr>pending = map Returns pre @ Returns v # p, trace = tr\<rparr> =
        Some (Inr (), \<lparr>pending = p, trace = tr @ map ReadLine pre @ ReadLine v # echo v\<rparr>) \<and>
      length (line_reads (map ReadLine pre @ ReadLine v # echo v)) = length pre + 1 \<and>
      printed (map ReadLine pre) = [] \<and>
      for_msg_in [msg] \<lparr>pending = map Returns pre @ Returns v # p, trace = tr\<rparr> =
        Some (Inr (), \<lparr>pending = p,
          trace = tr @ [Print (''Write: '' @ py_str (PyBytes msg)), Write (msg @ [newline])] @
            map ReadLine pre @ ReadLine v # echo v\<rparr>) \<and>
      (terminal (classify (py_str v2)) \<longrightarrow>
         for_msg_in [msg, nxt]
           \<lparr>pending = map Returns pre @ Returns v # Returns v2 # p, trace = tr\<rparr> =
           Some (Inr (), \<lparr>pending = p,
             trace = tr @ [Print (''Write: '' @ py_str (PyBytes msg)), Write (msg @ [newline])] @
               map ReadLine pre @ ReadLine v # echo v @
               [Print (''Write: '' @ py_str (PyBytes nxt)), Write (nxt @ [newline])] @
               ReadLine v2 # echo v2\<rparr>))"
    if h: "(\<forall>u\<in>set pre. classify (py_str u) = Unrecognized) \<and> terminal (classify (py_str v))"
  proof -
    from h have u: "\<forall>u\<in>set pre. classify (py_str u) = Unrecognized"
      and b: "terminal (classify (py_str v))" by simp_all
    from u have a: "\<forall>u\<in>set pre. \<not> terminal (classify (py_str u))"
      by (simp add: terminal_def)
    note e = unrecognized_echo [OF u]
    show ?thesis
      using waiting_until_terminal [OF a b, of p tr] line_reads_exchange [of pre v]
        last_exchange [OF a b, of msg p tr] two_exchanges [OF a b, of v2 msg nxt p tr]
      by (simp only: e printed_reads) simp
  qed
  have streams: "classify (py_str (PyStr ''xxJUNK'')) = Unrecognized \<and>
   classify (py_str (PyStr '''')) = Unrecognized \<and>
   classify (py_str (PyBytes [])) = Unrecognized \<and>
   while_still_reading
     \<lparr>pending = [Returns (PyStr ''xxJUNK''), Returns (PyStr ''''), Returns (PyStr ''xxDONE!'')] @ p,
      trace = tr\<rparr> =
     Some (Inr (), \<lparr>pending = p,
       trace = tr @ [ReadLine (PyStr ''xxJUNK''), ReadLine (PyStr ''''),
                     ReadLine (PyStr ''xxDONE!'')]\<rparr>) \<and>
   length (line_reads [ReadLine (PyStr ''xxJUNK''), ReadLine (PyStr ''''),
                     ReadLine (PyStr ''xxDONE!'')]) = 3 \<and>
   for_msg_in (msg # rest)
     \<lparr>pending = [Returns (PyStr ''xxJUNK''), Returns (PyStr ''''), Returns (PyStr ''xxDONE!'')] @ p,
      trace = tr\<rparr> =
     for_msg_in rest \<lparr>pending = p,
       trace = tr @ [Print (''Write: '' @ py_str (PyBytes msg)), Write (msg @ [newline]),
                     ReadLine (PyStr ''xxJUNK''), ReadLine (PyStr ''''),
                     ReadLine (PyStr ''xxDONE!'')]\<rparr> \<and>
   for_msg_in [msg, nxt]
     \<lparr>pending = [Returns (PyStr ''xxJUNK''), Returns (PyStr ''''), Returns (PyStr ''xxDONE!''),
                 Returns (PyStr ''xxDONE!'')] @ p,
      trace = tr\<rparr> =
     Some (Inr (), \<lparr>pending = p,
       trace = tr @ [Print (''Write: '' @ py_str (PyBytes msg)), Write (msg @ [newline]),
                     ReadLine (PyStr ''xxJUNK''), ReadLine (PyStr ''''),
                     ReadLine (PyStr ''xxDONE!''),
                     Print (''Write: '' @ py_str (PyBytes nxt)), Write (nxt @ [newline]),
                     ReadLine (PyStr ''xxDONE!'')]\<rparr>) \<and>
   still_reading_body \<lparr>pending = Returns (PyBytes []) # p, trace = tr\<rparr> =
     (Inr True, \<lparr>pending = p, trace = tr @ [ReadLine (PyBytes [])]\<rparr>) \<and>
   still_reading_body \<lparr>pending = [], trace = tr\<rparr> =
     (Inr True, \<lparr>pending = [], trace = tr @ [ReadLine (PyBytes [])]\<rparr>)"
    using classify_timeout
    by (simp add: run_simps classify_def py_upper_def py_slice_def up_defs)
  from one general streams show ?thesis by blast
qed

text \<open>
  The general part on other lines: \<open>xxDONEzz\<close>, a timeout and a tag that starts one place
  early are read through; the lower-case \<open>done!\<close> that follows ends the wait.
\<close>

theorem unrecognized_lines_do_not_terminate_witness:
  "classify (py_str (PyStr ''xxDONEzz'')) = Unrecognized \<and>
   classify (py_str (PyBytes [])) = Unrecognized \<and>
   classify (py_str (PyStr ''xDEBUG: off by one'')) = Unrecognized \<and>
   classify (py_str (PyBytes (''done!'' @ [newline]))) = Done \<and>
   still_reading_body \<lparr>pending = [Returns (PyStr ''xxDONEzz'')], trace = []\<rparr> =
     (Inr True, \<lparr>pending = [], trace = [ReadLine (PyStr ''xxDONEzz'')]\<rparr>) \<and>
   while_still_reading
     \<lparr>pending = [Returns (PyStr ''xxDONEzz''), Returns (PyBytes []),
                 Returns (PyStr ''xDEBUG: off by one''),
                 Returns (PyBytes (''done!'' @ [newline])), Returns (PyStr ''xxJUNK'')],
      trace = []\<rparr> =
     Some (Inr (), \<lparr>pending = [Returns (PyStr ''xxJUNK'')],
       trace = [ReadLine (PyStr ''xxDONEzz''), ReadLine (PyBytes []),
                ReadLine (PyStr ''xDEBUG: off by one''),
                ReadLine (PyBytes (''done!'' @ [newline]))]\<rparr>) \<and>
   for_msg_in [''A-1'', ''B-2'']
     \<lparr>pending = [Returns (PyStr ''xxDONEzz''), Returns (PyBytes []),
                 Returns (PyStr ''xDEBUG: off by one''),
                 Returns (PyBytes (''done!'' @ [newline])),
                 Returns (PyBytes (''done!'' @ [newline])), Returns (PyStr ''xxJUNK'')],
      trace = []\<rparr> =
     Some (Inr (), \<lparr>pending = [Returns (PyStr ''xxJUNK'')],
       trace = [Print (''Write: b'' @ [squote] @ ''A-1'' @ [squote]), Write (''A-1'' @ [newline]),
                ReadLine (PyStr ''xxDONEzz''), ReadLine (PyBytes []),
                ReadLine (PyStr ''xDEBUG: off by one''),
                ReadLine (PyBytes (''done!'' @ [newline])),
                Print (''Write: b'' @ [squote] @ ''B-2'' @ [squote]), Write (''B-2'' @ [newline]),
                ReadLine (PyBytes (''done!'' @ [newline]))]\<rparr>)"
proof -
  have c: "classify (py_str (PyStr ''xxDONEzz'')) = Unrecognized"
    "classify (py_str (PyBytes [])) = Unrecognized"
    "classify (py_str (PyStr ''xDEBUG: off by one'')) = Unrecognized"
    "classify (py_str (PyBytes (''done!'' @ [newline]))) = Done"
    by (simp_all add: eval_defs)
  show ?thesis
    using c
      unrecognized_lines_do_not_terminate [where u = "PyStr ''xxDONEzz''"
        and pre = "[PyStr ''xxDONEzz'', PyBytes [], PyStr ''xDEBUG: off by one'']"
        and v = "PyBytes (''done!'' @ [newline])" and ?v2.0 = "PyBytes (''done!'' @ [newline])"
        and msg = "''A-1''" and nxt = "''B-2''" and p = "[Returns (PyStr ''xxJUNK'')]"
        and tr = "[]" and rest = "[]"]
    by (simp add: run_simps echo_def terminal_def eval_defs)
qed

subsection \<open>Error kinds\<close>

text \<open>
  C7, as stated, fails: a read that times out in the waiting loop prints nothing. Here the
  loop reads \<open>b''\<close> (a timeout) and then a \<open>DONE!\<close> line, and no line is printed at all.
\<close>

theorem timeout_prints_nothing:
  "while_still_reading
     \<lparr>pending = [Returns (PyBytes []), Returns (PyBytes (''DONE!'' @ [newline]))], trace = []\<rparr> =
     Some (Inr (), \<lparr>pending = [],
       trace = [ReadLine (PyBytes []), ReadLine (PyBytes (''DONE!'' @ [newline]))]\<rparr>) \<and>
   printed [ReadLine (PyBytes []), ReadLine (PyBytes (''DONE!'' @ [newline]))] = []"
  by (simp add: run_simps eval_defs)

text \<open>
  C7, amended. In the session loop, a line tagged \<open>ERROR:\<close> prints one \<open>Read:\<close> line and the
  session goes on with the next message; a read that times out prints nothing and the loop
  reads again; neither halts the program. A failure of the transport halts the program at
  the failing call: the result is \<open>TransportError\<close>, the remaining messages are not written
  and the script prints nothing for the failure.
\<close>

theorem error_kinds_in_session:
  "(classify (py_str v) = Error \<longrightarrow>
      for_msg_in (msg # rest) \<lparr>pending = Returns v # p, trace = tr\<rparr> =
        for_msg_in rest \<lparr>pending = p,
          trace = tr @ [Print (''Write: '' @ py_str (PyBytes msg)), Write (msg @ [newline]),
                        ReadLine v, Print (''Read:  '' @ py_str v)]\<rparr>) \<and>
   while_still_reading \<lparr>pending = Returns (PyBytes []) # p, trace = tr\<rparr> =
     while_still_reading \<lparr>pending = p, trace = tr @ [ReadLine (PyBytes [])]\<rparr> \<and>
   for_msg_in (msg # rest) \<lparr>pending = Returns (PyBytes []) # LinkDown # p, trace = tr\<rparr> =
     Some (Inl TransportError, \<lparr>pending = LinkDown # p,
       trace = tr @ [Print (''Write: '' @ py_str (PyBytes msg)), Write (msg @ [newline]),
                     ReadLine (PyBytes [])]\<rparr>) \<and>
   for_msg_in (msg # rest) \<lparr>pending = LinkDown # p, trace = tr\<rparr> =
     Some (Inl TransportError, \<lparr>pending = LinkDown # p,
       trace = tr @ [Print (''Write: '' @ py_str (PyBytes msg))]\<rparr>)"
proof -
  have err: "for_msg_in (msg # rest) \<lparr>pending = Returns v # p, trace = tr\<rparr> =
        for_msg_in rest \<lparr>pending = p,
          trace = tr @ [Print (''Write: '' @ py_str (PyBytes msg)), Write (msg @ [newline]),
                        ReadLine v, Print (''Read:  '' @ py_str v)]\<rparr>"
    if "classify (py_str v) = Error"
    using that by (simp add: run_simps)
  have tmo: "still_reading_body \<lparr>pending = Returns (PyBytes []) # q, trace = t\<rparr> =
      (Inr True, \<lparr>pending = q, trace = t @ [ReadLine (PyBytes [])]\<rparr>)" for q t
    using classify_timeout by (simp add: body_Returns)
  have again: "while_still_reading \<lparr>pending = Returns (PyBytes []) # p, trace = tr\<rparr> =
     while_still_reading \<lparr>pending = p, trace = tr @ [ReadLine (PyBytes [])]\<rparr>"
    using tmo by (rule loop_again)
  have down: "while_still_reading \<lparr>pending = LinkDown # q, trace = t\<rparr> =
     Some (Inl TransportError, \<lparr>pending = LinkDown # q, trace = t\<rparr>)" for q t
    by (simp add: loop_raise body_LinkDown)
  have halt1: "for_msg_in (msg # rest) \<lparr>pending = Returns (PyBytes []) # LinkDown # p, trace = tr\<rparr> =
     Some (Inl TransportError, \<lparr>pending = LinkDown # p,
       trace = tr @ [Print (''Write: '' @ py_str (PyBytes msg)), Write (msg @ [newline]),
                     ReadLine (PyBytes [])]\<rparr>)"
    by (simp add: print_world ser_write_Returns loop_again [OF tmo] down)
  have halt2: "for_msg_in (msg # rest) \<lparr>pending = LinkDown # p, trace = tr\<rparr> =
     Some (Inl TransportError, \<lparr>pending = LinkDown # p,
       trace = tr @ [Print (''Write: '' @ py_str (PyBytes msg))]\<rparr>)"
    by (simp add: print_world ser_write_LinkDown)
  from err again halt1 halt2 show ?thesis by blast
qed

theorem error_kinds_in_session_witness:
  "classify (py_str (PyBytes (''ERROR: no'' @ [newline]))) = Error \<and>
   for_msg_in [''A-1'', ''B-2'']
     \<lparr>pending = [Returns (PyBytes (''ERROR: no'' @ [newline])), Returns (PyBytes []), LinkDown],
      trace = []\<rparr> =
     Some (Inl TransportError, \<lparr>pending = [LinkDown],
       trace = [Print (''Write: b'' @ [squote] @ ''A-1'' @ [squote]), Write (''A-1'' @ [newline]),
                ReadLine (PyBytes (''ERROR: no'' @ [newline])),
                Print (''Read:  b'' @ [squote] @ ''ERROR: no'' @ [backslash] @ ''n'' @ [squote]),
                Print (''Write: b'' @ [squote] @ ''B-2'' @ [squote]), Write (''B-2'' @ [newline]),
                ReadLine (PyBytes [])]\<rparr>)"
proof -
  have err: "classify (py_str (PyBytes (''ERROR: no'' @ [newline]))) = Error"
    by (simp add: eval_defs)
  show ?thesis
    using err
      error_kinds_in_session [of "PyBytes (''ERROR: no'' @ [newline])" "''A-1''" "[''B-2'']"
        "[Returns (PyBytes []), LinkDown]" "[]"]
    by (simp add: run_simps eval_defs)
qed

end
